theory Spec2Isabelle
  imports Complex_Main "HOL-Library.Word"
begin

unbundle bit_operations_syntax

section \<open>Numeric conventions of the embedding\<close>

text \<open>
  The embedding follows \<^verbatim>\<open>src/warpdrive_esp8266_tft/blackhole.h\<close>.

  \<^item> A C \<^verbatim>\<open>float\<close> is modelled as a \<^typ>\<open>real\<close>: infinities and NaN are not
    represented, and rounding is represented where a property depends on it, which is in
    the speed limit of the falling stars (\<open>limitSpeed\<close>, through \<open>fl32\<close>); everywhere else
    an operation returns its exact result.
  \<^item> A C \<^verbatim>\<open>int\<close> is modelled as an unbounded \<^typ>\<open>int\<close> (the conversions from
    \<^verbatim>\<open>float\<close> never overflow in the model).
  \<^item> \<^verbatim>\<open>unsigned long\<close> (32 bits on the ESP8266) is \<^typ>\<open>32 word\<close>; \<^verbatim>\<open>uint16_t\<close> is
    \<^typ>\<open>16 word\<close>.
\<close>

type_synonym color = "16 word"
type_synonym millis = "32 word"

text \<open>Arduino's \<^verbatim>\<open>round(x)\<close>: half away from zero, result of integer type.\<close>

definition round_c :: "real \<Rightarrow> int" where
  "round_c v = (if v \<ge> 0 then \<lfloor>v + 1 / 2\<rfloor> else \<lceil>v - 1 / 2\<rceil>)"

text \<open>The C conversion \<^verbatim>\<open>(int)v\<close> of a floating value: truncation towards zero.\<close>

definition to_int :: "real \<Rightarrow> int" where
  "to_int v = (if v \<ge> 0 then \<lfloor>v\<rfloor> else \<lceil>v\<rceil>)"

text \<open>C's \<^verbatim>\<open>fmod\<close>: the remainder has the sign of the dividend.\<close>

definition fmod :: "real \<Rightarrow> real \<Rightarrow> real" where
  "fmod v w = v - w * real_of_int (to_int (v / w))"

text \<open>
  Rounding to binary32 (the ESP8266's \<^verbatim>\<open>float\<close>), to nearest with ties to even: a
  non-zero \<open>v\<close> with \<open>2 ^ e \<le> \<bar>v\<bar> < 2 ^ (e + 1)\<close> is rounded to a multiple of
  \<open>2 ^ (e - 23)\<close>, and to a multiple of \<open>2 ^ (- 149)\<close> below the normal range. Overflow to
  infinity (at \<open>2 ^ 128\<close>) is not represented.
\<close>

definition round_even :: "real \<Rightarrow> int" where
  "round_even v =
     (let f = \<lfloor>v\<rfloor>; r = v - real_of_int f
      in if r < 1 / 2 then f else if r > 1 / 2 then f + 1 else if even f then f else f + 1)"

definition ulp32 :: "real \<Rightarrow> real" where
  "ulp32 v = 2 powr (real_of_int (max \<lfloor>log 2 \<bar>v\<bar>\<rfloor> (- 126)) - 23)"

definition fl32 :: "real \<Rightarrow> real" where
  "fl32 v = (if v = 0 then 0 else real_of_int (round_even (v / ulp32 v)) * ulp32 v)"

text \<open>Arduino's macros \<^verbatim>\<open>constrain\<close> and \<^verbatim>\<open>sq\<close>.\<close>

definition constrain :: "'a::linorder \<Rightarrow> 'a \<Rightarrow> 'a \<Rightarrow> 'a" where
  "constrain v lo hi = (if v < lo then lo else if v > hi then hi else v)"

definition sq :: "'a::times \<Rightarrow> 'a" where
  "sq v = v * v"

text \<open>C's \<^verbatim>\<open>atan2(y, x)\<close>.\<close>

definition atan2 :: "real \<Rightarrow> real \<Rightarrow> real" where
  "atan2 v u =
     (if u > 0 then arctan (v / u)
      else if u < 0 then (if v \<ge> 0 then arctan (v / u) + pi else arctan (v / u) - pi)
      else if v > 0 then pi / 2
      else if v < 0 then - (pi / 2)
      else 0)"

text \<open>
  Arduino's \<^verbatim>\<open>random(howbig)\<close> and \<^verbatim>\<open>random(howsmall, howbig)\<close>. The generator itself is
  outside the repository; the model takes the generator's raw non-negative output as an
  argument and applies the reduction of the Arduino core, so that each call returns a value
  of its documented range.
\<close>

definition random_upto :: "int \<Rightarrow> nat \<Rightarrow> int" where
  "random_upto howbig raw = (if howbig = 0 then 0 else int raw mod \<bar>howbig\<bar>)"

definition random_range :: "int \<Rightarrow> int \<Rightarrow> nat \<Rightarrow> int" where
  "random_range howsmall howbig raw =
     (if howsmall \<ge> howbig then howsmall else random_upto (howbig - howsmall) raw + howsmall)"

text \<open>The colour extraction functions at the top of the header.\<close>

definition red :: "color \<Rightarrow> int" where
  "red c = push_bit 3 (drop_bit 11 (uint c) AND 0x1F)"

definition green :: "color \<Rightarrow> int" where
  "green c = push_bit 2 (drop_bit 5 (uint c) AND 0x3F)"

definition blue :: "color \<Rightarrow> int" where
  "blue c = push_bit 3 (uint c AND 0x1F)"

definition TFT_WHITE :: color where
  "TFT_WHITE = 0xFFFF"

definition MAX_ACCRETION_PARTICLES :: nat where
  "MAX_ACCRETION_PARTICLES = 450"

definition MAX_FALLING_STARS :: nat where
  "MAX_FALLING_STARS = 6"

section \<open>Data model\<close>

text \<open>
  The fields of \<^verbatim>\<open>struct AccretionParticle\<close> carry the prefix \<open>ap_\<close> and those of
  \<^verbatim>\<open>struct FallingStar\<close> the prefix \<open>fs_\<close>, since both structs use the names
  \<^verbatim>\<open>distance\<close>, \<^verbatim>\<open>prevX\<close>, \<^verbatim>\<open>active\<close>, ... and a record field is a global constant.
\<close>

record AccretionParticle =
  ap_angle :: real
  ap_distance :: real
  ap_speed :: real
  ap_brightness :: int
  ap_size :: int
  ap_prevX :: int
  ap_prevY :: int
  ap_color :: color
  ap_active :: bool
  ap_hasTrail :: bool
  ap_relativistic_factor :: real
  ap_doppler_shift :: real
  ap_trailStartTime :: millis
  ap_trailLifetime :: millis
  ap_trailX :: "int list"
  ap_trailY :: "int list"
  ap_trailColors :: "color list"
  ap_trailLength :: int

record FallingStar =
  fs_x :: real
  fs_y :: real
  fs_vx :: real
  fs_vy :: real
  fs_distance :: real
  fs_brightness :: int
  fs_prevX :: int
  fs_prevY :: int
  fs_active :: bool
  fs_spinFactor :: real
  fs_startTime :: millis
  fs_hasTrail :: bool
  fs_trailLifetime :: millis

text \<open>
  Everything the header reads from outside during one call of \<^verbatim>\<open>drawBlackHole\<close>: the
  \<^verbatim>\<open>extern\<close> variables, the library function \<^verbatim>\<open>tft.color565\<close>, the values returned by
  the calls of \<^verbatim>\<open>millis()\<close> (one field per call site, indexed by the loop counter where
  the call sits in a loop) and the raw outputs of the random generator (likewise).
\<close>

record env =
  SCREEN_WIDTH :: int
  SCREEN_HEIGHT :: int
  BG_COLOR :: color
  color565 :: "int \<Rightarrow> int \<Rightarrow> int \<Rightarrow> color"
  objectX :: int
  objectY :: int
  objectScale :: real
  millis_start :: millis
  millis_particle :: "nat \<Rightarrow> millis"
  millis_star :: "nat \<Rightarrow> millis"
  millis_consumed :: "nat \<Rightarrow> millis"
  rnd_init_angle :: "nat \<Rightarrow> nat"
  rnd_init_dist :: "nat \<Rightarrow> nat"
  rnd_reinit_angle :: "nat \<Rightarrow> nat"
  rnd_reinit_dist :: "nat \<Rightarrow> nat"
  rnd_spawn :: nat
  rnd_brightness :: nat
  rnd_spin :: nat
  rnd_edge :: nat
  rnd_pos :: nat
  rnd_offset :: nat
  rnd_speed :: nat

text \<open>The global variables of the header. \<^verbatim>\<open>prevTrailX[t][i]\<close> is \<open>prevTrailX s ! t ! i\<close>.\<close>

record state =
  blackHoleRadius :: real
  diskInnerRadius :: real
  diskOuterRadius :: real
  prevBlackHoleX :: int
  prevBlackHoleY :: int
  previousEventHorizonRadius :: real
  blackHoleInitialized :: bool
  blackHoleLastUpdateTime :: millis
  accretionDisk :: "AccretionParticle list"
  fallingStars :: "FallingStar list"
  previousLensPoints :: "(int \<times> int) list"
  prevTrailX :: "int list list"
  prevTrailY :: "int list list"
  trailLen :: "int list"
  prevInnerParticleX :: "int list"
  prevInnerParticleY :: "int list"

text \<open>The calls of the display primitives that the model records.\<close>

datatype tft_call =
  DrawPixel int int color
  | FillCircle int int int color

section \<open>Particle initialisation\<close>

definition calculateTrailColors :: "env \<Rightarrow> AccretionParticle \<Rightarrow> AccretionParticle" where
  "calculateTrailColors e p =
     (let r = red (ap_color p); g = green (ap_color p); b = blue (ap_color p)
      in p\<lparr>ap_trailColors :=
            map (\<lambda>i. let fadeRatio = 1 - real i * 0.12
                      in color565 e (max 0 (to_int (real_of_int r * fadeRatio)))
                                    (max 0 (to_int (real_of_int g * fadeRatio)))
                                    (max 0 (to_int (real_of_int b * fadeRatio))))
                [0..<8]\<rparr>)"

text \<open>
  \<^verbatim>\<open>initializeAccretionParticle(index, centerX, centerY)\<close> writes only
  \<^verbatim>\<open>accretionDisk[index]\<close> and reads the global \<^verbatim>\<open>blackHoleRadius\<close>; its two centre
  arguments are unused. The model takes the state (for the global), the two raw random
  draws and the particle stored at \<^verbatim>\<open>index\<close>, and returns the particle stored back.
\<close>

definition temperature_rgb :: "real \<Rightarrow> int \<times> int \<times> int" where
  "temperature_rgb temp_ratio =
     (if temp_ratio > 1.5 then (255, 255, 255)
      else if temp_ratio > 1.2 then (255, 255, 255)
      else if temp_ratio > 0.8 then (255, 255, 220)
      else if temp_ratio > 0.6 then (255, 240, 150)
      else (255, 200, 100))"

text \<open>
  Lines 808--848: the Doppler factor, the colour and the brightness of a particle at angle
  \<open>a\<close> and distance \<open>d\<close> with relativistic factor \<open>rf\<close>.
\<close>

definition particleShade :: "env \<Rightarrow> real \<Rightarrow> real \<Rightarrow> real \<Rightarrow> real \<Rightarrow> real \<times> color \<times> int" where
  "particleShade e currentDiskInnerRadius d rf a =
     (let sin_angle = sin a;
          doppler = 1 / (1 - rf * sin_angle);
          temp_factor = (currentDiskInnerRadius / d) powr 0.75;
          temp_ratio = temp_factor * doppler;
          (r0, g0, b0) = temperature_rgb temp_ratio;
          intensity = constrain (doppler ^ 4) 0.1 3.0;
          r = constrain (to_int (real_of_int r0 * intensity)) 0 255;
          g = constrain (to_int (real_of_int g0 * intensity)) 0 255;
          b = constrain (to_int (real_of_int b0 * intensity)) 0 255
      in (doppler, color565 e r g b, constrain (to_int (255 * intensity)) 50 255))"

definition initializeAccretionParticle ::
  "env \<Rightarrow> state \<Rightarrow> nat \<Rightarrow> nat \<Rightarrow> AccretionParticle \<Rightarrow> AccretionParticle" where
  "initializeAccretionParticle e s raw_angle raw_dist p =
     (let currentDiskInnerRadius = max 1 (blackHoleRadius s * 1.2);
          currentDiskOuterRadius = max (currentDiskInnerRadius + 1) (blackHoleRadius s * 2.5);
          diskWidth = currentDiskOuterRadius - currentDiskInnerRadius;
          a = real_of_int (random_range 0 3600 raw_angle) * pi / 1800;
          randFactor = real_of_int (random_range 0 1000 raw_dist) / 1000;
          distanceFactor = randFactor ^ 2;
          d = currentDiskInnerRadius + distanceFactor * diskWidth;
          orbital_velocity = sqrt (blackHoleRadius s / d);
          rf = min orbital_velocity 0.9;
          shade = particleShade e currentDiskInnerRadius d rf a;
          orbitRatio = sqrt (currentDiskInnerRadius / d)
      in calculateTrailColors e
           (p\<lparr>ap_angle := a,
              ap_distance := d,
              ap_relativistic_factor := rf,
              ap_doppler_shift := fst shade,
              ap_color := fst (snd shade),
              ap_brightness := snd (snd shade),
              ap_prevX := - 1,
              ap_prevY := - 1,
              ap_active := True,
              ap_hasTrail := True,
              ap_trailLength := 0,
              ap_trailX := replicate 8 (- 1),
              ap_trailY := replicate 8 (- 1),
              ap_speed := 0.04 * orbitRatio\<rparr>))"

section \<open>The update section: accretion disk\<close>

text \<open>
  The frame time: \<^verbatim>\<open>(currentTime - blackHoleLastUpdateTime) / 1000.0f\<close> on unsigned
  32-bit values, capped at 0.1 and replaced by 0.016 when not positive.
\<close>

definition deltaTime :: "millis \<Rightarrow> millis \<Rightarrow> real" where
  "deltaTime currentTime lastUpdate =
     (let dt = real (unat (currentTime - lastUpdate)) / 1000;
          dt = (if dt > 0.1 then 0.1 else dt)
      in if dt \<le> 0 then 0.016 else dt)"

text \<open>
  The loop \<^verbatim>\<open>for (int t = 7; t > 0; t--) a[t] = a[t-1];\<close> followed by \<^verbatim>\<open>a[0] = v\<close>.
\<close>

definition shift_trail :: "int \<Rightarrow> int list \<Rightarrow> int list" where
  "shift_trail v a = (fold (\<lambda>t b. b[t := b ! (t - 1)]) (rev [1..<8]) a)[0 := v]"

text \<open>
  One iteration of the loop ``Update Accretion Disk particles'' (lines 215--306), for the
  particle \<open>p\<close> stored at index \<open>i\<close>. The iteration reads and writes no other element of
  \<^verbatim>\<open>accretionDisk\<close>; \<open>s\<close> supplies the radii computed at the start of the call and \<open>dt\<close>
  the frame time.
\<close>

definition updateAccretionParticle ::
  "env \<Rightarrow> state \<Rightarrow> real \<Rightarrow> nat \<Rightarrow> AccretionParticle \<Rightarrow> AccretionParticle" where
  "updateAccretionParticle e s dt i p0 =
     (let lastValidX = ap_prevX p0;
          lastValidY = ap_prevY p0;
          p = p0\<lparr>ap_prevX := - 1\<rparr>
      in if \<not> ap_active p then
           (if ap_hasTrail p then
              (if millis_particle e i - ap_trailStartTime p > ap_trailLifetime p
               then initializeAccretionParticle e s (rnd_reinit_angle e i) (rnd_reinit_dist e i)
                      (p\<lparr>ap_hasTrail := False\<rparr>)
               else p\<lparr>ap_prevX := lastValidX, ap_prevY := lastValidY\<rparr>)
            else initializeAccretionParticle e s (rnd_reinit_angle e i) (rnd_reinit_dist e i) p)
         else
           (let currentDiskInnerRadius = max 1 (blackHoleRadius s * 1.2);
                spinFactor =
                  sqrt (currentDiskInnerRadius /
                        max (ap_distance p) (currentDiskInnerRadius * 0.5));
                a1 = ap_angle p + ap_speed p * spinFactor * dt * 60;
                a2 = fmod a1 (2 * pi);
                a = (if a2 < 0 then a2 + 2 * pi else a2);
                d1 = max (ap_distance p) (currentDiskInnerRadius * 0.1);
                d = min d1 (diskOuterRadius s * 1.1);
                distRatio =
                  max 0.1 ((d - diskInnerRadius s) /
                           max 1 (diskOuterRadius s - diskInnerRadius s));
                rf = 0.8 + (1 - distRatio) * 2;
                verticalCompression = 0.5 - 0.3 * cos a;
                floatX = real_of_int (objectX e) + cos a * d;
                floatY = real_of_int (objectY e) + sin a * d * verticalCompression;
                x = round_c floatX;
                y = round_c floatY;
                p1 = p\<lparr>ap_angle := a, ap_distance := d, ap_relativistic_factor := rf\<rparr>;
                p2 =
                  (if ap_active p1 \<and> ap_prevX p1 \<ge> 0 then
                     (let dist = sqrt (real_of_int (sq (x - ap_prevX p1) + sq (y - ap_prevY p1)))
                      in if dist > 0.5 + ap_relativistic_factor p1 * 0.5 then
                           (let p3 = p1\<lparr>ap_trailX := shift_trail (ap_prevX p1) (ap_trailX p1),
                                         ap_trailY := shift_trail (ap_prevY p1) (ap_trailY p1)\<rparr>;
                                p4 = calculateTrailColors e p3
                            in p4\<lparr>ap_trailLength := min 8 (ap_trailLength p4 + 1)\<rparr>)
                         else p1)
                   else p1)
            in p2\<lparr>ap_prevX := x, ap_prevY := y\<rparr>))"

definition updateAccretionDisk :: "env \<Rightarrow> real \<Rightarrow> state \<Rightarrow> state" where
  "updateAccretionDisk e dt s =
     s\<lparr>accretionDisk :=
         map (\<lambda>(i, p). updateAccretionParticle e s dt i p) (enumerate 0 (accretionDisk s))\<rparr>"

section \<open>The update section: falling stars\<close>

text \<open>
  The ``instantaneous flash'' of lines 385--394: the pixel writes of the two nested loops,
  in the order of the source.
\<close>

definition flash_point :: "env \<Rightarrow> state \<Rightarrow> nat \<Rightarrow> nat \<Rightarrow> int \<times> int" where
  "flash_point e s r j =
     (let a = real j * pi / 4
      in (round_c (real_of_int (objectX e) + cos a * (blackHoleRadius s + real r)),
          round_c (real_of_int (objectY e) + sin a * (blackHoleRadius s + real r))))"

definition on_screen :: "env \<Rightarrow> int \<times> int \<Rightarrow> bool" where
  "on_screen e q = (fst q \<ge> 0 \<and> fst q < SCREEN_WIDTH e \<and> snd q \<ge> 0 \<and> snd q < SCREEN_HEIGHT e)"

definition consumption_flash :: "env \<Rightarrow> state \<Rightarrow> tft_call list" where
  "consumption_flash e s =
     concat (map (\<lambda>r. concat (map (\<lambda>j.
        (let q = flash_point e s r j
         in if on_screen e q then [DrawPixel (fst q) (snd q) TFT_WHITE] else []))
        [0..<8])) [0..<3])"

text \<open>
  Lines 358--365: the speed limit applied after the velocity update, in binary32. Each
  product, the sum, the quotient and the square root are rounded (\<^verbatim>\<open>sqrt\<close> of a
  \<^verbatim>\<open>float\<close> stored into a \<^verbatim>\<open>float\<close> is the correctly rounded root), so the rescaled
  velocity need not have squared length exactly \<^verbatim>\<open>maxSpeedSq\<close>.
\<close>

definition limitSpeed :: "FallingStar \<Rightarrow> FallingStar" where
  "limitSpeed st =
     (let speedSq = fl32 (fl32 (fs_vx st * fs_vx st) + fl32 (fs_vy st * fs_vy st));
          maxSpeedSq = 400
      in if speedSq > maxSpeedSq then
           (let speedScale = fl32 (sqrt (fl32 (maxSpeedSq / speedSq)))
            in st\<lparr>fs_vx := fl32 (fs_vx st * speedScale), fs_vy := fl32 (fs_vy st * speedScale)\<rparr>)
         else st)"

text \<open>
  Lines 335--367: gravity, frame dragging and the velocity update, for a star at offset
  \<open>(dx, dy)\<close> and distance \<open>dist'\<close> (the local \<^verbatim>\<open>dist\<close>) from the centre.
\<close>

definition accelerate :: "state \<Rightarrow> real \<Rightarrow> real \<Rightarrow> real \<Rightarrow> real \<Rightarrow> FallingStar \<Rightarrow> FallingStar" where
  "accelerate s dt dx dy dist' st =
     (if dist' > 0.1 then
        (let distSq = dx * dx + dy * dy;
             gravityForce0 =
               (blackHoleRadius s * blackHoleRadius s * 150) / max distSq (blackHoleRadius s * 0.5);
             gravityForce = min gravityForce0 50;
             accX0 = (dx / dist') * gravityForce;
             accY0 = (dy / dist') * gravityForce;
             spin = (dist' < blackHoleRadius s * 8);
             perpX = - dy / dist';
             perpY = dx / dist';
             spinRadius = blackHoleRadius s * 4;
             effectiveDist = max dist' (spinRadius * 0.1);
             spinStrength0 = fs_spinFactor st * 1.5 * (spinRadius / effectiveDist);
             spinStrength = min spinStrength0 8;
             accX = (if spin then accX0 + perpX * spinStrength else accX0);
             accY = (if spin then accY0 + perpY * spinStrength else accY0)
         in limitSpeed (st\<lparr>fs_vx := fs_vx st + accX * dt, fs_vy := fs_vy st + accY * dt\<rparr>))
      else st)"

text \<open>
  Lines 378--407: the branch taken when the star is consumed or has left the extended
  screen; \<open>dist'\<close> is the distance \<^verbatim>\<open>dist\<close> computed at the start of the iteration.
\<close>

definition terminateStar ::
  "env \<Rightarrow> state \<Rightarrow> nat \<Rightarrow> real \<Rightarrow> int \<Rightarrow> int \<Rightarrow> FallingStar \<Rightarrow> FallingStar \<times> tft_call list" where
  "terminateStar e s i dist' lastValidX lastValidY st =
     (if dist' \<le> blackHoleRadius s * 1.5 then
        (st\<lparr>fs_active := False, fs_hasTrail := True, fs_trailLifetime := 600,
            fs_startTime := millis_consumed e i, fs_prevX := lastValidX, fs_prevY := lastValidY\<rparr>,
         consumption_flash e s)
      else
        (st\<lparr>fs_active := False, fs_hasTrail := False,
            fs_prevX := lastValidX, fs_prevY := lastValidY\<rparr>, []))"

text \<open>
  One iteration of the loop ``Update Falling Stars'' (lines 310--412) for the star \<open>st0\<close>
  stored at index \<open>i\<close>, with the pixel writes it issues. The local \<^verbatim>\<open>consumptionAngle\<close> is
  computed and never read; it is left out.
\<close>

definition updateFallingStar ::
  "env \<Rightarrow> state \<Rightarrow> real \<Rightarrow> nat \<Rightarrow> FallingStar \<Rightarrow> FallingStar \<times> tft_call list" where
  "updateFallingStar e s dt i st0 =
     (let lastValidX = fs_prevX st0;
          lastValidY = fs_prevY st0;
          st = st0\<lparr>fs_prevX := - 1\<rparr>
      in if \<not> fs_active st then
           (if fs_hasTrail st then
              (if millis_star e i - fs_startTime st > fs_trailLifetime st
               then (st\<lparr>fs_hasTrail := False\<rparr>, [])
               else (st\<lparr>fs_prevX := lastValidX, fs_prevY := lastValidY\<rparr>, []))
            else (st, []))
         else
           (let dx = real_of_int (objectX e) - fs_x st;
                dy = real_of_int (objectY e) - fs_y st;
                distSq = dx * dx + dy * dy;
                dist = sqrt distSq;
                st2 = accelerate s dt dx dy dist (st\<lparr>fs_distance := dist\<rparr>);
                st3 = st2\<lparr>fs_x := fs_x st2 + fs_vx st2 * dt, fs_y := fs_y st2 + fs_vy st2 * dt\<rparr>;
                x = round_c (fs_x st3);
                y = round_c (fs_y st3)
            in if dist \<le> blackHoleRadius s \<or> x < - 10 \<or> x \<ge> SCREEN_WIDTH e + 10
                  \<or> y < - 10 \<or> y \<ge> SCREEN_HEIGHT e + 10
               then terminateStar e s i dist lastValidX lastValidY st3
               else (st3\<lparr>fs_prevX := x, fs_prevY := y\<rparr>, [])))"

definition updateFallingStars :: "env \<Rightarrow> real \<Rightarrow> state \<Rightarrow> state \<times> tft_call list" where
  "updateFallingStars e dt s =
     (let rs = map (\<lambda>(i, st). updateFallingStar e s dt i st) (enumerate 0 (fallingStars s))
      in (s\<lparr>fallingStars := map fst rs\<rparr>, concat (map snd rs)))"

text \<open>
  ``Randomly create new falling stars'' (lines 416--450): the body executed for the first
  slot that is neither active nor fading.
\<close>

definition spawnFallingStar :: "env \<Rightarrow> FallingStar \<Rightarrow> FallingStar" where
  "spawnFallingStar e st =
     (let edge = random_upto 4 (rnd_edge e);
          (px, py) =
            (if edge = 0 then (real_of_int (random_upto (SCREEN_WIDTH e) (rnd_pos e)), - 5)
             else if edge = 1 then
               (real_of_int (SCREEN_WIDTH e + 4), real_of_int (random_upto (SCREEN_HEIGHT e) (rnd_pos e)))
             else if edge = 2 then
               (real_of_int (random_upto (SCREEN_WIDTH e) (rnd_pos e)), real_of_int (SCREEN_HEIGHT e + 4))
             else if edge = 3 then
               (- 5, real_of_int (random_upto (SCREEN_HEIGHT e) (rnd_pos e)))
             else (fs_x st, fs_y st));
          dx = real_of_int (objectX e) - px;
          dy = real_of_int (objectY e) - py;
          dist = sqrt (dx * dx + dy * dy);
          angle_to_center = atan2 dy dx;
          angle_offset = real_of_int (random_range (- 10) 10 (rnd_offset e)) * pi / 180;
          initial_angle = angle_to_center + angle_offset;
          initialSpeed = real_of_int (random_range 4 10 (rnd_speed e)) / 10
      in st\<lparr>fs_active := True,
            fs_hasTrail := False,
            fs_startTime := millis_start e,
            fs_brightness := random_range 180 256 (rnd_brightness e),
            fs_spinFactor := real_of_int (random_range 50 200 (rnd_spin e)) / 100,
            fs_x := px,
            fs_y := py,
            fs_distance := dist,
            fs_vx := cos initial_angle * initialSpeed,
            fs_vy := sin initial_angle * initialSpeed,
            fs_prevX := - 1,
            fs_prevY := - 1\<rparr>)"

text \<open>
  The search loop with its \<^verbatim>\<open>break\<close>: the list with the first free slot replaced, and
  the index of that slot (whose \<^verbatim>\<open>trailLen\<close> entry is reset).
\<close>

fun spawnLoop :: "env \<Rightarrow> nat \<Rightarrow> FallingStar list \<Rightarrow> FallingStar list \<times> nat option" where
  "spawnLoop e i [] = ([], None)"
| "spawnLoop e i (st # sts) =
     (if \<not> fs_active st \<and> \<not> fs_hasTrail st then (spawnFallingStar e st # sts, Some i)
      else (let (sts', r) = spawnLoop e (Suc i) sts in (st # sts', r)))"

definition spawnFallingStars :: "env \<Rightarrow> state \<Rightarrow> state" where
  "spawnFallingStars e s =
     (if random_upto 100 (rnd_spawn e) < 4 then
        (let (sts, r) = spawnLoop e 0 (fallingStars s)
         in case r of
              None \<Rightarrow> s\<lparr>fallingStars := sts\<rparr>
            | Some i \<Rightarrow> s\<lparr>fallingStars := sts, trailLen := (trailLen s)[i := 0]\<rparr>)
      else s)"

section \<open>The erasing section\<close>

text \<open>Lines 149--165: the old horizon and the lens points.\<close>

definition eraseHorizonAndLens :: "env \<Rightarrow> state \<Rightarrow> state \<times> tft_call list" where
  "eraseHorizonAndLens e s =
     (let blackHoleMovedOrResized =
            (objectX e \<noteq> prevBlackHoleX s \<or> objectY e \<noteq> prevBlackHoleY s \<or>
             \<bar>blackHoleRadius s - previousEventHorizonRadius s\<bar> > 0.5)
      in if blackHoleMovedOrResized \<and> previousEventHorizonRadius s > 0 then
           (let eraseRadius = previousEventHorizonRadius s + 4
            in (s\<lparr>previousLensPoints :=
                     map (\<lambda>q. if fst q \<ge> 0 then (- 1, snd q) else q) (previousLensPoints s)\<rparr>,
                FillCircle (prevBlackHoleX s) (prevBlackHoleY s) (to_int eraseRadius) (BG_COLOR e) #
                concat (map (\<lambda>q. if fst q \<ge> 0 then [DrawPixel (fst q) (snd q) (BG_COLOR e)] else [])
                            (previousLensPoints s))))
         else (s, []))"

text \<open>Lines 168--184, one iteration: the pixel writes, and the particle with its trail cleared.\<close>

definition eraseParticleCalls :: "env \<Rightarrow> AccretionParticle \<Rightarrow> tft_call list" where
  "eraseParticleCalls e p =
     (if ap_prevX p \<ge> 0 then [DrawPixel (ap_prevX p) (ap_prevY p) (BG_COLOR e)] else []) @
     concat (map (\<lambda>t. if ap_trailX p ! t \<ge> 0
                       then [DrawPixel (ap_trailX p ! t) (ap_trailY p ! t) (BG_COLOR e)] else [])
                 [0..<nat (ap_trailLength p)])"

definition clearParticleTrail :: "AccretionParticle \<Rightarrow> AccretionParticle" where
  "clearParticleTrail p =
     p\<lparr>ap_trailLength := 0, ap_trailX := replicate 8 (- 1), ap_trailY := replicate 8 (- 1)\<rparr>"

definition eraseAccretionDisk :: "env \<Rightarrow> state \<Rightarrow> state \<times> tft_call list" where
  "eraseAccretionDisk e s =
     (s\<lparr>accretionDisk := map clearParticleTrail (accretionDisk s)\<rparr>,
      concat (map (eraseParticleCalls e) (accretionDisk s)))"

text \<open>Lines 188--199, one iteration of the outer loop (star \<open>i\<close>).\<close>

definition eraseStarTrail :: "env \<Rightarrow> nat \<Rightarrow> state \<times> tft_call list \<Rightarrow> state \<times> tft_call list" where
  "eraseStarTrail e i sc =
     (let s = fst sc;
          ts = [0..<nat (trailLen s ! i)];
          calls =
            concat (map (\<lambda>t. if prevTrailX s ! t ! i \<ge> 0
                              then [DrawPixel (prevTrailX s ! t ! i) (prevTrailY s ! t ! i) (BG_COLOR e)]
                              else []) ts)
      in (s\<lparr>prevTrailX := fold (\<lambda>t a. a[t := (a ! t)[i := - 1]]) ts (prevTrailX s),
            prevTrailY := fold (\<lambda>t a. a[t := (a ! t)[i := - 1]]) ts (prevTrailY s),
            trailLen := (trailLen s)[i := 0]\<rparr>,
          snd sc @ calls))"

definition eraseFallingStars :: "env \<Rightarrow> state \<Rightarrow> state \<times> tft_call list" where
  "eraseFallingStars e s = fold (eraseStarTrail e) [0..<MAX_FALLING_STARS] (s, [])"

text \<open>Lines 202--208: the inner swirl points.\<close>

definition eraseInnerParticles :: "env \<Rightarrow> state \<Rightarrow> state \<times> tft_call list" where
  "eraseInnerParticles e s =
     (let qs = zip (prevInnerParticleX s) (prevInnerParticleY s)
      in (s\<lparr>prevInnerParticleX := map (\<lambda>q. if fst q \<ge> 0 then - 1 else fst q) qs,
            prevInnerParticleY := map (\<lambda>q. if fst q \<ge> 0 then - 1 else snd q) qs\<rparr>,
          concat (map (\<lambda>q. if fst q \<ge> 0 then [DrawPixel (fst q) (snd q) (BG_COLOR e)] else []) qs)))"

definition eraseSection :: "env \<Rightarrow> state \<Rightarrow> state \<times> tft_call list" where
  "eraseSection e s =
     (let (s1, c1) = eraseHorizonAndLens e s;
          (s2, c2) = eraseAccretionDisk e s1;
          (s3, c3) = eraseFallingStars e s2;
          (s4, c4) = eraseInnerParticles e s3
      in (s4, c1 @ c2 @ c3 @ c4))"

section \<open>The drawing section: what it stores\<close>

text \<open>
  The drawing section (lines 455--780) writes pixels and, at three places, stores
  coordinates for the next erase. The model keeps the stores (they decide the next frame's
  erase) and does not record the section's pixel writes; each of them stands behind a
  bounds check in the source.
\<close>

text \<open>Step 3, lines 513--534: the four inner swirl points, iteration \<open>i\<close>.\<close>

definition innerParticle :: "env \<Rightarrow> state \<Rightarrow> nat \<Rightarrow> int \<times> int" where
  "innerParticle e s i =
     (let innerAngle = fmod (real (unat (millis_start e)) / 90 + real i * (pi / 2)) (2 * pi);
          distanceFactor = min (0.15 + 0.6 * real i / 4) 0.9;
          innerX = round_c (real_of_int (objectX e) + cos innerAngle * blackHoleRadius s * distanceFactor);
          innerY = round_c (real_of_int (objectY e) + sin innerAngle * blackHoleRadius s * distanceFactor)
      in if on_screen e (innerX, innerY) then (innerX, innerY) else (- 1, - 1))"

definition drawInnerParticles :: "env \<Rightarrow> state \<Rightarrow> state" where
  "drawInnerParticles e s =
     s\<lparr>prevInnerParticleX := map (\<lambda>i. fst (innerParticle e s i)) [0..<4],
       prevInnerParticleY := map (\<lambda>i. snd (innerParticle e s i)) [0..<4]\<rparr>"

text \<open>
  Step 6, lines 602--690: the head of star \<open>i\<close> and its stretch points are appended to
  column \<open>i\<close> of \<^verbatim>\<open>prevTrailX\<close>, \<^verbatim>\<open>prevTrailY\<close>.
\<close>

definition recordTrailPoint :: "nat \<Rightarrow> int \<times> int \<Rightarrow> state \<Rightarrow> state" where
  "recordTrailPoint i q s =
     (let n = nat (trailLen s ! i)
      in s\<lparr>prevTrailX := (prevTrailX s)[n := (prevTrailX s ! n)[i := fst q]],
            prevTrailY := (prevTrailY s)[n := (prevTrailY s ! n)[i := snd q]],
            trailLen := (trailLen s)[i := trailLen s ! i + 1]\<rparr>)"

definition stretchStep :: "env \<Rightarrow> nat \<Rightarrow> int \<Rightarrow> int \<Rightarrow> real \<Rightarrow> nat \<Rightarrow> state \<Rightarrow> state" where
  "stretchStep e i x y stretchAngle j s =
     (let spacing = real j * (0.4 + real j * 0.05);
          aheadX = round_c (real_of_int x + cos stretchAngle * spacing);
          aheadY = round_c (real_of_int y + sin stretchAngle * spacing);
          behindX = round_c (real_of_int x - cos stretchAngle * spacing * 1.1);
          behindY = round_c (real_of_int y - sin stretchAngle * spacing * 1.1);
          s1 = (if on_screen e (aheadX, aheadY) \<and>
                   sqrt (real_of_int (sq (aheadX - objectX e) + sq (aheadY - objectY e)))
                     > blackHoleRadius s
                then recordTrailPoint i (aheadX, aheadY) s else s)
      in if on_screen e (behindX, behindY) \<and> trailLen s1 ! i < 10
         then recordTrailPoint i (behindX, behindY) s1 else s1)"

fun stretchLoop :: "env \<Rightarrow> nat \<Rightarrow> int \<Rightarrow> int \<Rightarrow> real \<Rightarrow> nat list \<Rightarrow> state \<Rightarrow> state" where
  "stretchLoop e i x y stretchAngle [] s = s"
| "stretchLoop e i x y stretchAngle (j # js) s =
     (if trailLen s ! i < 10
      then stretchLoop e i x y stretchAngle js (stretchStep e i x y stretchAngle j s)
      else s)"

definition drawFallingStar :: "env \<Rightarrow> nat \<Rightarrow> state \<Rightarrow> state" where
  "drawFallingStar e i s =
     (let st = fallingStars s ! i;
          x = fs_prevX st;
          y = fs_prevY st
      in if \<not> fs_active st \<and> \<not> fs_hasTrail st then s
         else if \<not> fs_active st \<and> fs_hasTrail st then s
         else if on_screen e (x, y) then
           (let current_dx = real_of_int (objectX e) - fs_x st;
                current_dy = real_of_int (objectY e) - fs_y st;
                current_distSq = current_dx * current_dx + current_dy * current_dy;
                current_dist = sqrt current_distSq;
                s1 = (if trailLen s ! i < 10 then recordTrailPoint i (x, y) s else s)
            in if current_dist < blackHoleRadius s * 2 then
                 (let stretchAngle = atan2 current_dy current_dx;
                      tidalForce =
                        (blackHoleRadius s * blackHoleRadius s * blackHoleRadius s * 50) /
                        max (current_distSq * current_dist) 1;
                      stretchFactor = min 6 tidalForce;
                      numStretchPoints = max 1 (to_int stretchFactor)
                  in stretchLoop e i x y stretchAngle [1..<Suc (nat numStretchPoints)] s1)
               else s1)
         else s)"

definition drawFallingStars :: "env \<Rightarrow> state \<Rightarrow> state" where
  "drawFallingStars e s = fold (drawFallingStar e) [0..<MAX_FALLING_STARS] s"

text \<open>
  Step 7, lines 694--777, one iteration: a front-half particle close to the horizon gets
  one more trail point, with the colour computed for it.
\<close>

definition drawFrontParticle :: "env \<Rightarrow> state \<Rightarrow> AccretionParticle \<Rightarrow> AccretionParticle" where
  "drawFrontParticle e s p =
     (if \<not> ap_active p \<or> ap_prevX p < 0 then p
      else if sin (ap_angle p) \<le> 0 then p
      else
        (let x = ap_prevX p; y = ap_prevY p
         in if on_screen e (x, y) then
              (let visibilityFactor = 0.8 + 0.4 * sin (ap_angle p);
                   distToCenter = sqrt (real_of_int (sq (x - objectX e) + sq (y - objectY e)));
                   boosted = (distToCenter < blackHoleRadius s * 1.6 \<and> blackHoleRadius s > 0);
                   boostFactor =
                     1 + max 0 ((blackHoleRadius s * 1.6 - distToCenter) / (blackHoleRadius s * 0.6)) * 0.9;
                   boost = (\<lambda>c. if boosted then min 255 (to_int (real_of_int c * boostFactor)) else c);
                   vis = (\<lambda>c. constrain (to_int (real_of_int c * visibilityFactor)) 0 255);
                   r_base = vis (boost (red (ap_color p)));
                   g_base = vis (boost (green (ap_color p)));
                   b_base = vis (boost (blue (ap_color p)))
               in if distToCenter < blackHoleRadius s * 1.4 \<and> distToCenter > blackHoleRadius s then
                    (let trailAngle = atan2 (real_of_int (y - objectY e)) (real_of_int (x - objectX e));
                         trailX = round_c (real_of_int x - 1 * cos trailAngle * 0.6);
                         trailY = round_c (real_of_int y - 1 * sin trailAngle * 0.6)
                     in if on_screen e (trailX, trailY) \<and> ap_trailLength p < 8 then
                          (let trailFactor = 0.6 / 1;
                               trailColor =
                                 color565 e
                                   (min 255 (to_int (real_of_int r_base * trailFactor * 1.2)))
                                   (min 255 (to_int (real_of_int g_base * trailFactor * 1.1)))
                                   (min 255 (to_int (real_of_int b_base * trailFactor)));
                               n = nat (ap_trailLength p)
                           in p\<lparr>ap_trailX := (ap_trailX p)[n := trailX],
                                 ap_trailY := (ap_trailY p)[n := trailY],
                                 ap_trailColors := (ap_trailColors p)[n := trailColor],
                                 ap_trailLength := ap_trailLength p + 1\<rparr>)
                        else p)
                  else p)
            else p))"

definition drawSection :: "env \<Rightarrow> state \<Rightarrow> state" where
  "drawSection e s =
     (let s1 = drawInnerParticles e s;
          s2 = drawFallingStars e s1
      in s2\<lparr>accretionDisk := map (drawFrontParticle e s2) (accretionDisk s2)\<rparr>)"

section \<open>The frame and the teardown\<close>

text \<open>Lines 96--98: the radii of this frame.\<close>

definition computeRadii :: "env \<Rightarrow> state \<Rightarrow> state" where
  "computeRadii e s =
     (let r = 14 * objectScale e
      in s\<lparr>blackHoleRadius := r, diskInnerRadius := r * 1.2, diskOuterRadius := r * 2.0\<rparr>)"

text \<open>Lines 101--139: initialisation on the first run.\<close>

definition initializeOnFirstRun :: "env \<Rightarrow> state \<Rightarrow> state" where
  "initializeOnFirstRun e s =
     (if \<not> blackHoleInitialized s then
        s\<lparr>accretionDisk :=
            map (\<lambda>(i, p). initializeAccretionParticle e s (rnd_init_angle e i) (rnd_init_dist e i) p)
                (enumerate 0 (accretionDisk s)),
          fallingStars :=
            map (\<lambda>st. st\<lparr>fs_active := False, fs_hasTrail := False, fs_prevX := - 1, fs_prevY := - 1\<rparr>)
                (fallingStars s),
          trailLen := replicate MAX_FALLING_STARS 0,
          prevTrailX := replicate 10 (replicate MAX_FALLING_STARS (- 1)),
          prevTrailY := replicate 10 (replicate MAX_FALLING_STARS (- 1)),
          previousLensPoints := replicate 60 (- 1, - 1),
          prevInnerParticleX := replicate 4 (- 1),
          prevInnerParticleY := replicate 4 (- 1),
          prevBlackHoleX := objectX e,
          prevBlackHoleY := objectY e,
          previousEventHorizonRadius := blackHoleRadius s,
          blackHoleLastUpdateTime := millis_start e,
          blackHoleInitialized := True\<rparr>
      else s)"

text \<open>
  The state at the three points of a frame that the properties speak about: after the
  erasing section, after the accretion-disk update, and after the falling-star update
  together with the spawn.
\<close>

definition frameStart :: "env \<Rightarrow> state \<Rightarrow> state" where
  "frameStart e s = initializeOnFirstRun e (computeRadii e s)"

definition frameDelta :: "env \<Rightarrow> state \<Rightarrow> real" where
  "frameDelta e s = deltaTime (millis_start e) (blackHoleLastUpdateTime (frameStart e s))"

definition afterErase :: "env \<Rightarrow> state \<Rightarrow> state \<times> tft_call list" where
  "afterErase e s = eraseSection e ((frameStart e s)\<lparr>blackHoleLastUpdateTime := millis_start e\<rparr>)"

definition afterDiskUpdate :: "env \<Rightarrow> state \<Rightarrow> state" where
  "afterDiskUpdate e s = updateAccretionDisk e (frameDelta e s) (fst (afterErase e s))"

definition afterStarUpdate :: "env \<Rightarrow> state \<Rightarrow> state \<times> tft_call list" where
  "afterStarUpdate e s = updateFallingStars e (frameDelta e s) (afterDiskUpdate e s)"

text \<open>
  \<^verbatim>\<open>drawBlackHole()\<close>: the new globals, and the pixel writes of the erasing section and of
  the consumption flash.
\<close>

definition drawBlackHole :: "env \<Rightarrow> state \<Rightarrow> state \<times> tft_call list" where
  "drawBlackHole e s =
     (let s1 = drawSection e (spawnFallingStars e (fst (afterStarUpdate e s)))
      in (s1\<lparr>prevBlackHoleX := objectX e,
             prevBlackHoleY := objectY e,
             previousEventHorizonRadius := blackHoleRadius s1\<rparr>,
          snd (afterErase e s) @ snd (afterStarUpdate e s)))"

text \<open>\<^verbatim>\<open>eraseBlackHole()\<close>, lines 890--909.\<close>

definition eraseBlackHole :: "env \<Rightarrow> state \<Rightarrow> state \<times> tft_call list" where
  "eraseBlackHole e s =
     (if blackHoleInitialized s then
        (let eraseRadius =
               (if previousEventHorizonRadius s > 0
                then max (previousEventHorizonRadius s * 2.5) (diskOuterRadius s * 1.1) + 5
                else 60)
         in (s\<lparr>blackHoleInitialized := False,
               prevBlackHoleX := - 1000,
               prevBlackHoleY := - 1000,
               previousEventHorizonRadius := 0,
               previousLensPoints := map (\<lambda>q. (- 1, snd q)) (previousLensPoints s),
               trailLen := map (\<lambda>n. 0) (trailLen s),
               prevInnerParticleX := map (\<lambda>v. - 1) (prevInnerParticleX s)\<rparr>,
             [FillCircle (prevBlackHoleX s) (prevBlackHoleY s) (round_c eraseRadius) (BG_COLOR e)]))
      else (s, []))"

text \<open>
  The globals before the first call: the initialisers of the header, and zero for every
  global without one.
\<close>

definition zeroParticle :: AccretionParticle where
  "zeroParticle =
     \<lparr>ap_angle = 0, ap_distance = 0, ap_speed = 0, ap_brightness = 0, ap_size = 0,
      ap_prevX = 0, ap_prevY = 0, ap_color = 0, ap_active = False, ap_hasTrail = False,
      ap_relativistic_factor = 0, ap_doppler_shift = 0, ap_trailStartTime = 0,
      ap_trailLifetime = 0, ap_trailX = replicate 8 0, ap_trailY = replicate 8 0,
      ap_trailColors = replicate 8 0, ap_trailLength = 0\<rparr>"

definition zeroStar :: FallingStar where
  "zeroStar =
     \<lparr>fs_x = 0, fs_y = 0, fs_vx = 0, fs_vy = 0, fs_distance = 0, fs_brightness = 0,
      fs_prevX = 0, fs_prevY = 0, fs_active = False, fs_spinFactor = 0, fs_startTime = 0,
      fs_hasTrail = False, fs_trailLifetime = 0\<rparr>"

definition initial_state :: state where
  "initial_state =
     \<lparr>blackHoleRadius = 0, diskInnerRadius = 0, diskOuterRadius = 0,
      prevBlackHoleX = - 1000, prevBlackHoleY = - 1000, previousEventHorizonRadius = 0,
      blackHoleInitialized = False, blackHoleLastUpdateTime = 0,
      accretionDisk = replicate MAX_ACCRETION_PARTICLES zeroParticle,
      fallingStars = replicate MAX_FALLING_STARS zeroStar,
      previousLensPoints = replicate 60 (0, 0),
      prevTrailX = replicate 10 (replicate MAX_FALLING_STARS 0),
      prevTrailY = replicate 10 (replicate MAX_FALLING_STARS 0),
      trailLen = replicate MAX_FALLING_STARS 0,
      prevInnerParticleX = replicate 4 (- 1),
      prevInnerParticleY = replicate 4 (- 1)\<rparr>"

text \<open>
  The states the module can be in: the initial one, and those reached from it by calls of
  \<^verbatim>\<open>drawBlackHole\<close> and \<^verbatim>\<open>eraseBlackHole\<close> under any values of the external inputs.
\<close>

inductive reachable :: "state \<Rightarrow> bool" where
  reachable_initial: "reachable initial_state"
| reachable_draw: "reachable s \<Longrightarrow> reachable (fst (drawBlackHole e s))"
| reachable_erase: "reachable s \<Longrightarrow> reachable (fst (eraseBlackHole e s))"

section \<open>A concrete scenario\<close>

text \<open>
  A 240 by 240 display with the focal object at its centre and scale 1, every clock reading
  0 and every raw random output 0; \<^verbatim>\<open>color565\<close> packs as the display library does.
  \<open>edge_env\<close> differs only in the position of the focal object, five pixels from the right
  border.
\<close>

definition scenario_env :: env where
  "scenario_env =
     \<lparr>SCREEN_WIDTH = 240, SCREEN_HEIGHT = 240, BG_COLOR = 0,
      color565 = (\<lambda>r g b. word_of_int (push_bit 8 (r AND 0xF8) OR push_bit 3 (g AND 0xFC) OR drop_bit 3 b)),
      objectX = 120, objectY = 120, objectScale = 1,
      millis_start = 0, millis_particle = (\<lambda>i. 0), millis_star = (\<lambda>i. 0),
      millis_consumed = (\<lambda>i. 0),
      rnd_init_angle = (\<lambda>i. 0), rnd_init_dist = (\<lambda>i. 0),
      rnd_reinit_angle = (\<lambda>i. 0), rnd_reinit_dist = (\<lambda>i. 0),
      rnd_spawn = 0, rnd_brightness = 0, rnd_spin = 0, rnd_edge = 0, rnd_pos = 0,
      rnd_offset = 0, rnd_speed = 0\<rparr>"

definition edge_env :: env where
  "edge_env = scenario_env\<lparr>objectX := 235\<rparr>"

text \<open>The globals once the radii of the scenario are computed (14, 16.8 and 28).\<close>

definition scenario_state :: state where
  "scenario_state = computeRadii scenario_env initial_state"

text \<open>
  An active star at \<open>(30, 120)\<close>, ninety pixels to the left of the centre, moving at speed
  exactly 20 with spin factor 1.
\<close>

definition fast_star :: FallingStar where
  "fast_star =
     zeroStar\<lparr>fs_x := 30, fs_y := 120, fs_vx := 0, fs_vy := 20, fs_spinFactor := 1, fs_active := True\<rparr>"

text \<open>An active star ten pixels to the right of the centre, inside the horizon.\<close>

definition inner_star :: FallingStar where
  "inner_star = zeroStar\<lparr>fs_x := 130, fs_y := 120, fs_active := True\<rparr>"

section \<open>Properties\<close>

lemma init_distance:
  "ap_distance (initializeAccretionParticle e s ra rd p) =
     max 1 (blackHoleRadius s * 1.2) +
     (real_of_int (random_range 0 1000 rd) / 1000)^2 *
     (max (max 1 (blackHoleRadius s * 1.2) + 1) (blackHoleRadius s * 2.5) - max 1 (blackHoleRadius s * 1.2))"
  by (simp add: initializeAccretionParticle_def calculateTrailColors_def Let_def)

lemma init_active: "ap_active (initializeAccretionParticle e s ra rd p)"
  by (simp add: initializeAccretionParticle_def calculateTrailColors_def Let_def)

lemma init_angle:
  "ap_angle (initializeAccretionParticle e s ra rd p) = real_of_int (random_range 0 3600 ra) * pi / 1800"
  by (simp add: initializeAccretionParticle_def calculateTrailColors_def Let_def)

lemma random_range_bounds: "lo < hi \<Longrightarrow> lo \<le> random_range lo hi raw \<and> random_range lo hi raw < hi"
proof -
  assume h: "lo < hi"
  then have "0 \<le> int raw mod (hi - lo)" "int raw mod (hi - lo) < hi - lo"
    by simp_all
  with h show ?thesis
    by (simp add: random_range_def random_upto_def)
qed

lemma fmod_nonneg:
  assumes "w > 0" "v \<ge> 0"
  shows "0 \<le> fmod v w \<and> fmod v w < w"
proof -
  let ?q = "v / w"
  have q: "?q \<ge> 0" using assms by simp
  have f: "fmod v w = w * (?q - of_int \<lfloor>?q\<rfloor>)"
    using assms q by (simp add: fmod_def to_int_def algebra_simps)
  have "0 \<le> ?q - of_int \<lfloor>?q\<rfloor>" "?q - of_int \<lfloor>?q\<rfloor> < 1"
    by linarith+
  then have "0 \<le> w * (?q - of_int \<lfloor>?q\<rfloor>)" "w * (?q - of_int \<lfloor>?q\<rfloor>) < w * 1"
    using assms(1) by (simp_all del: mult_1_right)
  then show ?thesis unfolding f by simp
qed

lemma fmod_neg:
  assumes "w > 0" "v < 0"
  shows "- w < fmod v w \<and> fmod v w \<le> 0"
proof -
  let ?q = "v / w"
  have q: "?q < 0" using assms by (simp add: divide_neg_pos)
  have f: "fmod v w = w * (?q - of_int \<lceil>?q\<rceil>)"
    using assms q by (simp add: fmod_def to_int_def algebra_simps)
  have t: "?q - of_int \<lceil>?q\<rceil> \<le> 0" "- 1 < ?q - of_int \<lceil>?q\<rceil>"
    by linarith+
  have "w * (?q - of_int \<lceil>?q\<rceil>) \<le> 0"
    using assms(1) t(1) by (simp add: mult_le_0_iff)
  moreover have "w * (- 1) < w * (?q - of_int \<lceil>?q\<rceil>)"
    using assms(1) t(2) by (rule mult_strict_left_mono[OF _ _, rotated -1]) 
  ultimately show ?thesis unfolding f by simp
qed

lemma fmod_2pi_less: "fmod v (2 * pi) < 2 * pi"
  using fmod_nonneg[of "2 * pi" v] fmod_neg[of "2 * pi" v] by (cases "v \<ge> 0") auto

lemma fmod_2pi_wrap: "0 \<le> fmod v (2 * pi) + 2 * pi"
  using fmod_nonneg[of "2 * pi" v] fmod_neg[of "2 * pi" v] by (cases "v \<ge> 0") auto

lemma update_active_angle:
  "ap_active p \<Longrightarrow>
     0 \<le> ap_angle (updateAccretionParticle e s dt i p) \<and>
     ap_angle (updateAccretionParticle e s dt i p) < 2 * pi"
  by (simp add: updateAccretionParticle_def calculateTrailColors_def Let_def fmod_2pi_less fmod_2pi_wrap)

lemma update_active_active:
  "ap_active p \<Longrightarrow> ap_active (updateAccretionParticle e s dt i p)"
  by (simp add: updateAccretionParticle_def calculateTrailColors_def Let_def)

lemma update_active_distance:
  "ap_active p \<Longrightarrow>
     ap_distance (updateAccretionParticle e s dt i p) =
       min (max (ap_distance p) (max 1 (blackHoleRadius s * 1.2) * 0.1)) (diskOuterRadius s * 1.1)"
  by (simp add: updateAccretionParticle_def calculateTrailColors_def Let_def)

subsection \<open>Globals that the trail bookkeeping of the falling stars leaves alone\<close>

lemma eraseStarTrail_keeps:
  shows "accretionDisk (fst (eraseStarTrail e i sc)) = accretionDisk (fst sc)"
    and "fallingStars (fst (eraseStarTrail e i sc)) = fallingStars (fst sc)"
    and "previousLensPoints (fst (eraseStarTrail e i sc)) = previousLensPoints (fst sc)"
    and "blackHoleInitialized (fst (eraseStarTrail e i sc)) = blackHoleInitialized (fst sc)"
    and "blackHoleRadius (fst (eraseStarTrail e i sc)) = blackHoleRadius (fst sc)"
    and "diskInnerRadius (fst (eraseStarTrail e i sc)) = diskInnerRadius (fst sc)"
    and "diskOuterRadius (fst (eraseStarTrail e i sc)) = diskOuterRadius (fst sc)"
    and "prevInnerParticleX (fst (eraseStarTrail e i sc)) = prevInnerParticleX (fst sc)"
    and "prevInnerParticleY (fst (eraseStarTrail e i sc)) = prevInnerParticleY (fst sc)"
  by (simp_all add: eraseStarTrail_def Let_def)

lemma fold_eraseStarTrail_keeps:
  shows "accretionDisk (fst (fold (eraseStarTrail e) js sc)) = accretionDisk (fst sc)"
    and "fallingStars (fst (fold (eraseStarTrail e) js sc)) = fallingStars (fst sc)"
    and "previousLensPoints (fst (fold (eraseStarTrail e) js sc)) = previousLensPoints (fst sc)"
    and "blackHoleInitialized (fst (fold (eraseStarTrail e) js sc)) = blackHoleInitialized (fst sc)"
    and "blackHoleRadius (fst (fold (eraseStarTrail e) js sc)) = blackHoleRadius (fst sc)"
    and "diskInnerRadius (fst (fold (eraseStarTrail e) js sc)) = diskInnerRadius (fst sc)"
    and "diskOuterRadius (fst (fold (eraseStarTrail e) js sc)) = diskOuterRadius (fst sc)"
    and "prevInnerParticleX (fst (fold (eraseStarTrail e) js sc)) = prevInnerParticleX (fst sc)"
    and "prevInnerParticleY (fst (fold (eraseStarTrail e) js sc)) = prevInnerParticleY (fst sc)"
  by (induction js arbitrary: sc) (simp_all add: eraseStarTrail_keeps)

lemma eraseFallingStars_keeps:
  shows "accretionDisk (fst (eraseFallingStars e s)) = accretionDisk s"
    and "fallingStars (fst (eraseFallingStars e s)) = fallingStars s"
    and "previousLensPoints (fst (eraseFallingStars e s)) = previousLensPoints s"
    and "blackHoleInitialized (fst (eraseFallingStars e s)) = blackHoleInitialized s"
    and "blackHoleRadius (fst (eraseFallingStars e s)) = blackHoleRadius s"
    and "diskInnerRadius (fst (eraseFallingStars e s)) = diskInnerRadius s"
    and "diskOuterRadius (fst (eraseFallingStars e s)) = diskOuterRadius s"
    and "prevInnerParticleX (fst (eraseFallingStars e s)) = prevInnerParticleX s"
    and "prevInnerParticleY (fst (eraseFallingStars e s)) = prevInnerParticleY s"
  by (simp_all add: eraseFallingStars_def fold_eraseStarTrail_keeps)

lemma recordTrailPoint_keeps:
  shows "accretionDisk (recordTrailPoint i q s) = accretionDisk s"
    and "fallingStars (recordTrailPoint i q s) = fallingStars s"
    and "previousLensPoints (recordTrailPoint i q s) = previousLensPoints s"
    and "blackHoleInitialized (recordTrailPoint i q s) = blackHoleInitialized s"
    and "blackHoleRadius (recordTrailPoint i q s) = blackHoleRadius s"
    and "diskInnerRadius (recordTrailPoint i q s) = diskInnerRadius s"
    and "diskOuterRadius (recordTrailPoint i q s) = diskOuterRadius s"
    and "prevInnerParticleX (recordTrailPoint i q s) = prevInnerParticleX s"
    and "prevInnerParticleY (recordTrailPoint i q s) = prevInnerParticleY s"
  by (simp_all add: recordTrailPoint_def Let_def)

lemma stretchStep_keeps:
  shows "accretionDisk (stretchStep e i x y a j s) = accretionDisk s"
    and "fallingStars (stretchStep e i x y a j s) = fallingStars s"
    and "previousLensPoints (stretchStep e i x y a j s) = previousLensPoints s"
    and "blackHoleInitialized (stretchStep e i x y a j s) = blackHoleInitialized s"
    and "blackHoleRadius (stretchStep e i x y a j s) = blackHoleRadius s"
    and "diskInnerRadius (stretchStep e i x y a j s) = diskInnerRadius s"
    and "diskOuterRadius (stretchStep e i x y a j s) = diskOuterRadius s"
    and "prevInnerParticleX (stretchStep e i x y a j s) = prevInnerParticleX s"
    and "prevInnerParticleY (stretchStep e i x y a j s) = prevInnerParticleY s"
  by (simp_all add: stretchStep_def Let_def recordTrailPoint_keeps)

lemma stretchLoop_keeps:
  shows "accretionDisk (stretchLoop e i x y a js s) = accretionDisk s"
    and "fallingStars (stretchLoop e i x y a js s) = fallingStars s"
    and "previousLensPoints (stretchLoop e i x y a js s) = previousLensPoints s"
    and "blackHoleInitialized (stretchLoop e i x y a js s) = blackHoleInitialized s"
    and "blackHoleRadius (stretchLoop e i x y a js s) = blackHoleRadius s"
    and "diskInnerRadius (stretchLoop e i x y a js s) = diskInnerRadius s"
    and "diskOuterRadius (stretchLoop e i x y a js s) = diskOuterRadius s"
    and "prevInnerParticleX (stretchLoop e i x y a js s) = prevInnerParticleX s"
    and "prevInnerParticleY (stretchLoop e i x y a js s) = prevInnerParticleY s"
  by (induction js arbitrary: s) (simp_all add: stretchStep_keeps)

lemma drawFallingStar_keeps:
  shows "accretionDisk (drawFallingStar e i s) = accretionDisk s"
    and "fallingStars (drawFallingStar e i s) = fallingStars s"
    and "previousLensPoints (drawFallingStar e i s) = previousLensPoints s"
    and "blackHoleInitialized (drawFallingStar e i s) = blackHoleInitialized s"
    and "blackHoleRadius (drawFallingStar e i s) = blackHoleRadius s"
    and "diskInnerRadius (drawFallingStar e i s) = diskInnerRadius s"
    and "diskOuterRadius (drawFallingStar e i s) = diskOuterRadius s"
    and "prevInnerParticleX (drawFallingStar e i s) = prevInnerParticleX s"
    and "prevInnerParticleY (drawFallingStar e i s) = prevInnerParticleY s"
  by (simp_all add: drawFallingStar_def Let_def stretchLoop_keeps recordTrailPoint_keeps)

lemma fold_drawFallingStar_keeps:
  shows "accretionDisk (fold (drawFallingStar e) js s) = accretionDisk s"
    and "fallingStars (fold (drawFallingStar e) js s) = fallingStars s"
    and "previousLensPoints (fold (drawFallingStar e) js s) = previousLensPoints s"
    and "blackHoleInitialized (fold (drawFallingStar e) js s) = blackHoleInitialized s"
    and "blackHoleRadius (fold (drawFallingStar e) js s) = blackHoleRadius s"
    and "diskInnerRadius (fold (drawFallingStar e) js s) = diskInnerRadius s"
    and "diskOuterRadius (fold (drawFallingStar e) js s) = diskOuterRadius s"
    and "prevInnerParticleX (fold (drawFallingStar e) js s) = prevInnerParticleX s"
    and "prevInnerParticleY (fold (drawFallingStar e) js s) = prevInnerParticleY s"
  by (induction js arbitrary: s) (simp_all add: drawFallingStar_keeps)

lemma drawFallingStars_keeps:
  shows "accretionDisk (drawFallingStars e s) = accretionDisk s"
    and "fallingStars (drawFallingStars e s) = fallingStars s"
    and "previousLensPoints (drawFallingStars e s) = previousLensPoints s"
    and "blackHoleInitialized (drawFallingStars e s) = blackHoleInitialized s"
    and "blackHoleRadius (drawFallingStars e s) = blackHoleRadius s"
    and "diskInnerRadius (drawFallingStars e s) = diskInnerRadius s"
    and "diskOuterRadius (drawFallingStars e s) = diskOuterRadius s"
    and "prevInnerParticleX (drawFallingStars e s) = prevInnerParticleX s"
    and "prevInnerParticleY (drawFallingStars e s) = prevInnerParticleY s"
  by (simp_all add: drawFallingStars_def fold_drawFallingStar_keeps)

lemma in_enumerate_map:
  "q \<in> set (map (\<lambda>(i, p). f i p) (enumerate n xs)) \<Longrightarrow> \<exists>i p. p \<in> set xs \<and> q = f i p"
proof -
  assume "q \<in> set (map (\<lambda>(i, p). f i p) (enumerate n xs))"
  then obtain i p where ip: "(i, p) \<in> set (enumerate n xs)" and q: "q = f i p"
    by auto
  from ip have "p \<in> set xs"
    by (auto simp: in_set_enumerate_eq)
  with q show ?thesis by blast
qed

lemma fst_eraseSection:
  "fst (eraseSection e s) =
     fst (eraseInnerParticles e (fst (eraseFallingStars e (fst (eraseAccretionDisk e (fst (eraseHorizonAndLens e s)))))))"
  by (simp add: eraseSection_def split: prod.splits)

lemma eraseSection_fields:
  shows "accretionDisk (fst (eraseSection e s)) = map clearParticleTrail (accretionDisk s)"
    and "fallingStars (fst (eraseSection e s)) = fallingStars s"
    and "blackHoleInitialized (fst (eraseSection e s)) = blackHoleInitialized s"
    and "blackHoleRadius (fst (eraseSection e s)) = blackHoleRadius s"
    and "diskInnerRadius (fst (eraseSection e s)) = diskInnerRadius s"
    and "diskOuterRadius (fst (eraseSection e s)) = diskOuterRadius s"
    and "previousLensPoints (fst (eraseSection e s)) = previousLensPoints (fst (eraseHorizonAndLens e s))"
  by (simp_all add: fst_eraseSection eraseInnerParticles_def Let_def eraseFallingStars_keeps
        eraseAccretionDisk_def eraseHorizonAndLens_def)

lemma frameStart_fields:
  shows "blackHoleRadius (frameStart e s) = 14 * objectScale e"
    and "diskInnerRadius (frameStart e s) = 14 * objectScale e * 1.2"
    and "diskOuterRadius (frameStart e s) = 14 * objectScale e * 2"
    and "blackHoleInitialized (frameStart e s)"
  by (simp_all add: frameStart_def initializeOnFirstRun_def computeRadii_def Let_def)

lemma afterErase_fields:
  shows "blackHoleRadius (fst (afterErase e s)) = 14 * objectScale e"
    and "diskInnerRadius (fst (afterErase e s)) = 14 * objectScale e * 1.2"
    and "diskOuterRadius (fst (afterErase e s)) = 14 * objectScale e * 2"
    and "blackHoleInitialized (fst (afterErase e s))"
    and "accretionDisk (fst (afterErase e s)) = map clearParticleTrail (accretionDisk (frameStart e s))"
    and "fallingStars (fst (afterErase e s)) = fallingStars (frameStart e s)"
  by (simp_all add: afterErase_def eraseSection_fields frameStart_fields)

lemma afterDiskUpdate_fields:
  shows "blackHoleRadius (afterDiskUpdate e s) = 14 * objectScale e"
    and "diskInnerRadius (afterDiskUpdate e s) = 14 * objectScale e * 1.2"
    and "diskOuterRadius (afterDiskUpdate e s) = 14 * objectScale e * 2"
    and "blackHoleInitialized (afterDiskUpdate e s)"
    and "fallingStars (afterDiskUpdate e s) = fallingStars (frameStart e s)"
    and "previousLensPoints (afterDiskUpdate e s) = previousLensPoints (fst (afterErase e s))"
    and "accretionDisk (afterDiskUpdate e s) =
          map (\<lambda>(i, p). updateAccretionParticle e (fst (afterErase e s)) (frameDelta e s) i p)
              (enumerate 0 (accretionDisk (fst (afterErase e s))))"
  by (simp_all add: afterDiskUpdate_def updateAccretionDisk_def afterErase_fields)

lemma spawnFallingStars_keeps:
  shows "accretionDisk (spawnFallingStars e s) = accretionDisk s"
    and "previousLensPoints (spawnFallingStars e s) = previousLensPoints s"
    and "blackHoleInitialized (spawnFallingStars e s) = blackHoleInitialized s"
    and "blackHoleRadius (spawnFallingStars e s) = blackHoleRadius s"
    and "prevInnerParticleY (spawnFallingStars e s) = prevInnerParticleY s"
  by (simp_all add: spawnFallingStars_def Let_def split: prod.splits option.splits)

lemma afterStarUpdate_fields:
  shows "accretionDisk (fst (afterStarUpdate e s)) = accretionDisk (afterDiskUpdate e s)"
    and "previousLensPoints (fst (afterStarUpdate e s)) = previousLensPoints (afterDiskUpdate e s)"
    and "blackHoleInitialized (fst (afterStarUpdate e s))"
    and "blackHoleRadius (fst (afterStarUpdate e s)) = 14 * objectScale e"
    and "fallingStars (fst (afterStarUpdate e s)) =
           map fst (map (\<lambda>(i, st). updateFallingStar e (afterDiskUpdate e s) (frameDelta e s) i st)
                        (enumerate 0 (fallingStars (frameStart e s))))"
  by (simp_all add: afterStarUpdate_def updateFallingStars_def Let_def afterDiskUpdate_fields)

lemma drawSection_fields:
  shows "accretionDisk (drawSection e s) = map (drawFrontParticle e (drawFallingStars e (drawInnerParticles e s))) (accretionDisk s)"
    and "fallingStars (drawSection e s) = fallingStars s"
    and "previousLensPoints (drawSection e s) = previousLensPoints s"
    and "blackHoleInitialized (drawSection e s) = blackHoleInitialized s"
    and "blackHoleRadius (drawSection e s) = blackHoleRadius s"
    and "prevInnerParticleY (drawSection e s) = map (\<lambda>i. snd (innerParticle e s i)) [0..<4]"
  by (simp_all add: drawSection_def Let_def drawFallingStars_keeps drawInnerParticles_def)

lemma drawBlackHole_fields:
  shows "accretionDisk (fst (drawBlackHole e s)) =
           map (drawFrontParticle e (drawFallingStars e (drawInnerParticles e (spawnFallingStars e (fst (afterStarUpdate e s))))))
               (accretionDisk (afterDiskUpdate e s))"
    and "fallingStars (fst (drawBlackHole e s)) = fallingStars (spawnFallingStars e (fst (afterStarUpdate e s)))"
    and "previousLensPoints (fst (drawBlackHole e s)) = previousLensPoints (fst (afterErase e s))"
    and "blackHoleInitialized (fst (drawBlackHole e s))"
  by (simp_all add: drawBlackHole_def Let_def drawSection_fields spawnFallingStars_keeps
        afterStarUpdate_fields afterDiskUpdate_fields)

lemma drawFrontParticle_active: "ap_active (drawFrontParticle e s p) = ap_active p"
  by (simp add: drawFrontParticle_def Let_def)

lemma clearParticleTrail_fields:
  shows "ap_active (clearParticleTrail p) = ap_active p"
    and "ap_distance (clearParticleTrail p) = ap_distance p"
    and "ap_prevX (clearParticleTrail p) = ap_prevX p"
    and "ap_prevY (clearParticleTrail p) = ap_prevY p"
  by (simp_all add: clearParticleTrail_def)

lemma frameStart_all_active:
  assumes "blackHoleInitialized s \<Longrightarrow> \<forall>p\<in>set (accretionDisk s). ap_active p"
  shows "\<forall>p\<in>set (accretionDisk (frameStart e s)). ap_active p"
proof (cases "blackHoleInitialized s")
  case True
  with assms show ?thesis
    by (simp add: frameStart_def initializeOnFirstRun_def computeRadii_def Let_def)
next
  case False
  then show ?thesis
    by (auto simp: frameStart_def initializeOnFirstRun_def computeRadii_def Let_def
          init_active dest!: in_enumerate_map)
qed

lemma reachable_all_active:
  "reachable s \<Longrightarrow> blackHoleInitialized s \<Longrightarrow> \<forall>p\<in>set (accretionDisk s). ap_active p"
proof (induction rule: reachable.induct)
  case reachable_initial
  then show ?case by (simp add: initial_state_def)
next
  case (reachable_draw s e)
  have fs: "\<forall>p\<in>set (accretionDisk (frameStart e s)). ap_active p"
    using reachable_draw.IH by (rule frameStart_all_active)
  show ?case
  proof
    fix p assume "p \<in> set (accretionDisk (fst (drawBlackHole e s)))"
    then obtain p1 where p1: "p1 \<in> set (accretionDisk (afterDiskUpdate e s))"
        and a: "ap_active p = ap_active p1"
      by (auto simp: drawBlackHole_fields drawFrontParticle_active)
    from p1 obtain i p2 where p2: "p2 \<in> set (accretionDisk (fst (afterErase e s)))"
        and u: "p1 = updateAccretionParticle e (fst (afterErase e s)) (frameDelta e s) i p2"
      unfolding afterDiskUpdate_fields by (blast dest: in_enumerate_map)
    from p2 fs have "ap_active p2"
      by (auto simp: afterErase_fields clearParticleTrail_fields)
    with u a show "ap_active p" by (simp add: update_active_active)
  qed
next
  case (reachable_erase s e)
  then show ?case by (simp add: eraseBlackHole_def Let_def split: if_splits)
qed

lemma afterDiskUpdate_particle:
  assumes r: "reachable s" and p: "p \<in> set (accretionDisk (afterDiskUpdate e s))"
  obtains i p0 where "ap_active p0"
    and "p = updateAccretionParticle e (fst (afterErase e s)) (frameDelta e s) i p0"
proof -
  have fs: "\<forall>p\<in>set (accretionDisk (frameStart e s)). ap_active p"
    using reachable_all_active[OF r] by (rule frameStart_all_active)
  from p obtain i p0 where p0: "p0 \<in> set (accretionDisk (fst (afterErase e s)))"
      and u: "p = updateAccretionParticle e (fst (afterErase e s)) (frameDelta e s) i p0"
    unfolding afterDiskUpdate_fields by (blast dest: in_enumerate_map)
  from p0 fs have "ap_active p0"
    by (auto simp: afterErase_fields clearParticleTrail_fields)
  with u that show ?thesis by blast
qed

text \<open>
  Claim C2. In every frame that starts from a reachable state with a non-negative scale,
  every accretion particle has, right after the accretion-disk update of that frame, a
  distance between \<open>0.1 * diskInnerRadius\<close> and \<open>1.1 * diskOuterRadius\<close>. (In a reachable
  state every particle is active when the update runs, see \<open>reachable_all_active\<close>, so no
  particle goes through the re-initialising branch of the update, which does not clamp.)
\<close>

theorem radial_bound_after_update:
  assumes "reachable s" and "0 \<le> objectScale e"
    and "p \<in> set (accretionDisk (afterDiskUpdate e s))"
  shows "0.1 * diskInnerRadius (afterDiskUpdate e s) \<le> ap_distance p \<and>
         ap_distance p \<le> 1.1 * diskOuterRadius (afterDiskUpdate e s)"
proof -
  obtain i p0 where a: "ap_active p0"
    and u: "p = updateAccretionParticle e (fst (afterErase e s)) (frameDelta e s) i p0"
    using afterDiskUpdate_particle[OF assms(1,3)] by blast
  have d: "ap_distance p =
      min (max (ap_distance p0) (max 1 (14 * objectScale e * 1.2) * 0.1)) (14 * objectScale e * 2 * 1.1)"
    unfolding u by (simp add: update_active_distance[OF a] afterErase_fields)
  show ?thesis
    unfolding d afterDiskUpdate_fields using assms(2) by (auto simp: min_def max_def)
qed

text \<open>
  Claim C7. In every frame that starts from a reachable state, every accretion particle has,
  right after the accretion-disk update, an angle in \<open>[0, 2 * pi)\<close>.
\<close>

theorem angle_wrapped_after_update:
  assumes "reachable s" and "p \<in> set (accretionDisk (afterDiskUpdate e s))"
  shows "0 \<le> ap_angle p \<and> ap_angle p < 2 * pi"
proof -
  obtain i p0 where a: "ap_active p0"
    and u: "p = updateAccretionParticle e (fst (afterErase e s)) (frameDelta e s) i p0"
    using afterDiskUpdate_particle[OF assms] by blast
  show ?thesis unfolding u using a by (rule update_active_angle)
qed

lemma reachable_lens:
  "reachable s \<Longrightarrow> blackHoleInitialized s \<Longrightarrow> previousLensPoints s = replicate 60 (- 1, - 1)"
proof (induction rule: reachable.induct)
  case reachable_initial
  then show ?case by (simp add: initial_state_def)
next
  case (reachable_draw s e)
  have "previousLensPoints (frameStart e s) = replicate 60 (- 1, - 1)"
    using reachable_draw.IH
    by (cases "blackHoleInitialized s")
       (simp_all add: frameStart_def initializeOnFirstRun_def computeRadii_def Let_def)
  then show ?case
    by (simp add: drawBlackHole_fields afterErase_def eraseSection_fields
          eraseHorizonAndLens_def Let_def)
next
  case (reachable_erase s e)
  then show ?case by (simp add: eraseBlackHole_def Let_def split: if_splits)
qed

subsection \<open>Rounding to binary32\<close>

lemma round_even_err: "\<bar>real_of_int (round_even v) - v\<bar> \<le> 1 / 2"
  unfolding round_even_def Let_def by (auto; linarith)

lemma round_even_eq:
  assumes "\<bar>v - real_of_int m\<bar> < 1 / 2"
  shows "round_even v = m"
proof -
  have "\<bar>real_of_int (round_even v) - v\<bar> \<le> 1 / 2" by (rule round_even_err)
  with assms have "\<bar>real_of_int (round_even v) - real_of_int m\<bar> < 1" by linarith
  then have "\<bar>round_even v - m\<bar> < 1"
    by (metis of_int_diff of_int_abs of_int_less_1_iff)
  then show ?thesis by linarith
qed

lemma round_even_nonneg: "0 \<le> v \<Longrightarrow> 0 \<le> round_even v"
  unfolding round_even_def Let_def by (auto; linarith)

lemma ulp32_pos: "0 < ulp32 v"
  by (simp add: ulp32_def)

lemma two_powr_int:
  shows "2 powr real_of_int (int j) = 2 ^ j"
    and "2 powr real_of_int (- int j) = 1 / 2 ^ j"
proof -
  show 1: "2 powr real_of_int (int j) = 2 ^ j"
    using powr_realpow[of 2 j] by simp
  have "2 powr real_of_int (- int j) = 1 / 2 powr real_of_int (int j)"
    by (simp add: powr_minus divide_inverse)
  then show "2 powr real_of_int (- int j) = 1 / 2 ^ j"
    unfolding 1 .
qed

lemma p23: "(2::real) powr 23 = 2 ^ 23"
  using two_powr_int(1)[of 23] by simp

lemma p149: "(2::real) powr (- 149) = 1 / 2 ^ 149"
  using two_powr_int(2)[of 149] by simp

lemma ulp32_bound:
  assumes "v \<noteq> 0"
  shows "ulp32 v \<le> max (\<bar>v\<bar> / 2 ^ 23) (1 / 2 ^ 149)"
proof (cases "- 126 \<le> \<lfloor>log 2 \<bar>v\<bar>\<rfloor>")
  case True
  then have m: "max \<lfloor>log 2 \<bar>v\<bar>\<rfloor> (- 126) = \<lfloor>log 2 \<bar>v\<bar>\<rfloor>" by (rule max_absorb1)
  have "ulp32 v = 2 powr (real_of_int \<lfloor>log 2 \<bar>v\<bar>\<rfloor> - 23)"
    unfolding ulp32_def m ..
  also have "\<dots> = 2 powr real_of_int \<lfloor>log 2 \<bar>v\<bar>\<rfloor> / 2 powr 23"
    by (rule powr_diff)
  also have "\<dots> \<le> 2 powr (log 2 \<bar>v\<bar>) / 2 powr 23"
    by (intro divide_right_mono powr_mono) simp_all
  also have "2 powr (log 2 \<bar>v\<bar>) = \<bar>v\<bar>" using assms by simp
  finally have "ulp32 v \<le> \<bar>v\<bar> / 2 ^ 23" unfolding p23 .
  then show ?thesis by (rule max.coboundedI1)
next
  case False
  then have m: "max \<lfloor>log 2 \<bar>v\<bar>\<rfloor> (- 126) = - 126" by (intro max_absorb2) simp
  have "real_of_int (- 126) - 23 = - 149" by simp
  then have "ulp32 v = 2 powr (- 149)"
    unfolding ulp32_def m by (simp only:)
  then have "ulp32 v \<le> 1 / 2 ^ 149" unfolding p149 by simp
  then show ?thesis by (rule max.coboundedI2)
qed

lemma fl32_err_ulp: "\<bar>fl32 v - v\<bar> \<le> ulp32 v / 2"
proof (cases "v = 0")
  case True
  then show ?thesis using ulp32_pos[of v] by (simp add: fl32_def)
next
  case False
  have "\<bar>real_of_int (round_even (v / ulp32 v)) - v / ulp32 v\<bar> \<le> 1 / 2"
    by (rule round_even_err)
  then have "\<bar>real_of_int (round_even (v / ulp32 v)) - v / ulp32 v\<bar> * ulp32 v \<le> 1 / 2 * ulp32 v"
    using ulp32_pos[of v] by (intro mult_right_mono) simp_all
  moreover have "\<bar>real_of_int (round_even (v / ulp32 v)) - v / ulp32 v\<bar> * ulp32 v =
      \<bar>(real_of_int (round_even (v / ulp32 v)) - v / ulp32 v) * ulp32 v\<bar>"
    using ulp32_pos[of v] by (intro abs_mult_pos) simp
  moreover have "(real_of_int (round_even (v / ulp32 v)) - v / ulp32 v) * ulp32 v =
      real_of_int (round_even (v / ulp32 v)) * ulp32 v - v"
    using ulp32_pos[of v] by (simp add: left_diff_distrib)
  ultimately show ?thesis using False by (simp add: fl32_def)
qed

lemma fl32_err: "\<bar>fl32 v - v\<bar> \<le> \<bar>v\<bar> / 2 ^ 24 + 1 / 2 ^ 150"
proof (cases "v = 0")
  case True
  then show ?thesis by (simp add: fl32_def)
next
  case False
  have "ulp32 v \<le> \<bar>v\<bar> / 2 ^ 23 \<or> ulp32 v \<le> 1 / 2 ^ 149"
    using ulp32_bound[OF False] by (simp only: le_max_iff_disj)
  then have "ulp32 v / 2 \<le> \<bar>v\<bar> / 2 ^ 24 + 1 / 2 ^ 150"
  proof
    assume "ulp32 v \<le> \<bar>v\<bar> / 2 ^ 23"
    then have "ulp32 v / 2 \<le> \<bar>v\<bar> / 2 ^ 23 / 2" by simp
    then show ?thesis by simp
  next
    assume "ulp32 v \<le> 1 / 2 ^ 149"
    then have "ulp32 v / 2 \<le> 1 / 2 ^ 149 / 2" by simp
    moreover have "0 \<le> \<bar>v\<bar> / 2 ^ 24" by simp
    ultimately show ?thesis by simp
  qed
  then show ?thesis using fl32_err_ulp[of v] by linarith
qed

lemma fl32_nonneg: "0 \<le> v \<Longrightarrow> 0 \<le> fl32 v"
  using ulp32_pos[of v] round_even_nonneg[of "v / ulp32 v"]
  by (simp add: fl32_def)

lemma fl32_eval:
  assumes "2 powr real_of_int k \<le> \<bar>v\<bar>" and "\<bar>v\<bar> < 2 powr real_of_int (k + 1)" and "- 126 \<le> k"
    and "p = 2 powr real_of_int (k - 23)"
    and "\<bar>v - real_of_int m * p\<bar> < p / 2"
  shows "fl32 v = real_of_int m * p"
proof -
  have "0 < (2::real) powr real_of_int k" by simp
  with assms(1) have v: "v \<noteq> 0" by auto
  have "\<lfloor>log 2 \<bar>v\<bar>\<rfloor> = k"
  proof (rule floor_unique)
    show "real_of_int k \<le> log 2 \<bar>v\<bar>"
      using assms(1) v by (simp add: le_log_iff)
    show "log 2 \<bar>v\<bar> < real_of_int k + 1"
      using assms(2) v by (simp add: log_less_iff add.commute)
  qed
  then have "max \<lfloor>log 2 \<bar>v\<bar>\<rfloor> (- 126) = k" using assms(3) by simp
  then have u: "ulp32 v = p"
    unfolding ulp32_def assms(4) by simp
  have p: "0 < p" using assms(4) by simp
  have "v / p - real_of_int m = (v - real_of_int m * p) / p"
    using p by (simp add: diff_divide_distrib)
  then have "\<bar>v / p - real_of_int m\<bar> = \<bar>v - real_of_int m * p\<bar> / p"
    using p by simp
  also have "\<dots> < 1 / 2"
    using assms(5) p by (simp add: divide_less_eq)
  finally have "round_even (v / p) = m" by (rule round_even_eq)
  then show ?thesis using v u by (simp add: fl32_def)
qed

lemma fl32_eval_small:
  assumes "0 < j" and "j \<le> 126"
    and "1 / 2 ^ j \<le> \<bar>v\<bar>" and "\<bar>v\<bar> < 2 / 2 ^ j"
    and "\<bar>v - real_of_int m / 2 ^ (j + 23)\<bar> < 1 / 2 ^ (j + 24)"
  shows "fl32 v = real_of_int m / 2 ^ (j + 23)"
proof -
  have a: "2 powr real_of_int (- int j) = 1 / 2 ^ j"
    by (rule two_powr_int)
  obtain i where j: "j = Suc i" using assms(1) by (cases j) simp_all
  have "- int j + 1 = - int i" using j by simp
  then have b: "2 powr real_of_int (- int j + 1) = 2 / 2 ^ j"
    using two_powr_int(2)[of i] j by simp
  have "- int j - 23 = - int (j + 23)" by simp
  then have c: "2 powr real_of_int (- int j - 23) = 1 / 2 ^ (j + 23)"
    using two_powr_int(2)[of "j + 23"] by simp
  have "j + 24 = Suc (j + 23)" by simp
  then have "(2::real) ^ (j + 24) = 2 ^ Suc (j + 23)" by (simp only:)
  then have "(2::real) ^ (j + 24) = 2 ^ (j + 23) * 2" by (simp only: power_Suc2)
  then have d: "(1::real) / 2 ^ (j + 23) / 2 = 1 / 2 ^ (j + 24)" by simp
  have "fl32 v = real_of_int m * (1 / 2 ^ (j + 23))"
  proof (rule fl32_eval[where k = "- int j"])
    show "2 powr real_of_int (- int j) \<le> \<bar>v\<bar>" unfolding a by (rule assms)
    show "\<bar>v\<bar> < 2 powr real_of_int (- int j + 1)" unfolding b by (rule assms)
    show "- 126 \<le> - int j" using assms(2) by simp
    show "1 / 2 ^ (j + 23) = 2 powr real_of_int (- int j - 23)" unfolding c ..
    show "\<bar>v - real_of_int m * (1 / 2 ^ (j + 23))\<bar> < 1 / 2 ^ (j + 23) / 2"
      unfolding d using assms(5) by simp
  qed
  then show ?thesis by simp
qed

lemma fl32_eval_large:
  assumes "2 ^ j \<le> \<bar>v\<bar>" and "\<bar>v\<bar> < 2 * 2 ^ j" and "j + i = 23"
    and "\<bar>v - real_of_int m / 2 ^ i\<bar> < 1 / (2 * 2 ^ i)"
  shows "fl32 v = real_of_int m / 2 ^ i"
proof -
  have a: "2 powr real_of_int (int j) = 2 ^ j"
    by (rule two_powr_int)
  have "2 powr real_of_int (int (Suc j)) = 2 ^ Suc j"
    by (rule two_powr_int)
  moreover have "int j + 1 = int (Suc j)" by simp
  ultimately have b: "2 powr real_of_int (int j + 1) = 2 * 2 ^ j"
    by (simp only: power_Suc)
  have "int j + int i = 23" using assms(3) by linarith
  then have "int j - 23 = - int i" by linarith
  then have c: "2 powr real_of_int (int j - 23) = 1 / 2 ^ i"
    using two_powr_int(2)[of i] by (simp only:)
  have "fl32 v = real_of_int m * (1 / 2 ^ i)"
  proof (rule fl32_eval[where k = "int j"])
    show "2 powr real_of_int (int j) \<le> \<bar>v\<bar>" unfolding a by (rule assms)
    show "\<bar>v\<bar> < 2 powr real_of_int (int j + 1)" unfolding b by (rule assms)
    show "- 126 \<le> int j" by simp
    show "1 / 2 ^ i = 2 powr real_of_int (int j - 23)" unfolding c ..
    show "\<bar>v - real_of_int m * (1 / 2 ^ i)\<bar> < 1 / 2 ^ i / 2"
      using assms(4) by simp
  qed
  then show ?thesis by simp
qed

lemma fl32_lower: "0 \<le> v \<Longrightarrow> v * (1 - 1 / 2 ^ 24) - 1 / 2 ^ 150 \<le> fl32 v"
proof -
  assume "0 \<le> v"
  then have "\<bar>fl32 v - v\<bar> \<le> v / 2 ^ 24 + 1 / 2 ^ 150" using fl32_err[of v] by simp
  then have "v - v / 2 ^ 24 - 1 / 2 ^ 150 \<le> fl32 v" by linarith
  moreover have "v * (1 - 1 / 2 ^ 24) = v - v / 2 ^ 24" by (simp only: right_diff_distrib) simp
  ultimately show ?thesis by (simp only:)
qed

lemma fl32_upper: "0 \<le> v \<Longrightarrow> fl32 v \<le> v * (1 + 1 / 2 ^ 24) + 1 / 2 ^ 150"
proof -
  assume "0 \<le> v"
  then have "\<bar>fl32 v - v\<bar> \<le> v / 2 ^ 24 + 1 / 2 ^ 150" using fl32_err[of v] by simp
  then have "fl32 v \<le> v + v / 2 ^ 24 + 1 / 2 ^ 150" by linarith
  moreover have "v * (1 + 1 / 2 ^ 24) = v + v / 2 ^ 24" by (simp only: distrib_left) simp
  ultimately show ?thesis by (simp only:)
qed

lemma fl32_abs_upper: "\<bar>fl32 v\<bar> \<le> \<bar>v\<bar> * (1 + 1 / 2 ^ 24) + 1 / 2 ^ 150"
proof -
  have "\<bar>fl32 v - v\<bar> \<le> \<bar>v\<bar> / 2 ^ 24 + 1 / 2 ^ 150" by (rule fl32_err)
  then have "\<bar>fl32 v\<bar> \<le> \<bar>v\<bar> + \<bar>v\<bar> / 2 ^ 24 + 1 / 2 ^ 150" by linarith
  moreover have "\<bar>v\<bar> * (1 + 1 / 2 ^ 24) = \<bar>v\<bar> + \<bar>v\<bar> / 2 ^ 24" by (simp only: distrib_left) simp
  ultimately show ?thesis by (simp only:)
qed

lemma sum_sq_rounded:
  fixes a b :: real
  defines "T \<equiv> a * a + b * b"
  defines "S \<equiv> fl32 (fl32 (a * a) + fl32 (b * b))"
  defines "c \<equiv> 1 - 1 / 2 ^ 24" and "C \<equiv> 1 + 1 / 2 ^ 24" and "h \<equiv> 1 / 2 ^ 150"
  shows "T * c * c - 3 * h \<le> S"
    and "S \<le> T * C * C + 4 * h"
proof -
  define x1 where "x1 = a * a"
  define x2 where "x2 = b * b"
  define f1 where "f1 = fl32 x1"
  define f2 where "f2 = fl32 x2"
  have x: "0 \<le> x1" "0 \<le> x2" by (simp_all add: x1_def x2_def)
  have f: "0 \<le> f1" "0 \<le> f2" using x by (simp_all add: f1_def f2_def fl32_nonneg)
  have c: "0 \<le> c" "c \<le> 1" by (simp_all add: c_def)
  have C: "0 \<le> C" "C \<le> 3 / 2" by (simp_all add: C_def)
  have h: "0 \<le> h" by (simp add: h_def)
  have T: "T = x1 + x2" by (simp add: T_def x1_def x2_def)
  have S: "S = fl32 (f1 + f2)" by (simp add: S_def f1_def f2_def x1_def x2_def)
  have l1: "x1 * c - h \<le> f1" unfolding c_def h_def f1_def using x(1) by (rule fl32_lower)
  have l2: "x2 * c - h \<le> f2" unfolding c_def h_def f2_def using x(2) by (rule fl32_lower)
  have l3: "(f1 + f2) * c - h \<le> S" unfolding c_def h_def S using f by (intro fl32_lower) simp
  have "T * c - 2 * h \<le> f1 + f2" unfolding T using l1 l2 by (simp add: distrib_right)
  then have "(T * c - 2 * h) * c \<le> (f1 + f2) * c" using c(1) by (rule mult_right_mono)
  moreover have "(T * c - 2 * h) * c = T * c * c - 2 * h * c" by (simp add: left_diff_distrib)
  moreover have "2 * h * c \<le> 2 * h * 1" using c h by (intro mult_left_mono) simp_all
  ultimately show "T * c * c - 3 * h \<le> S" using l3 by linarith
  have u1: "f1 \<le> x1 * C + h" unfolding C_def h_def f1_def using x(1) by (rule fl32_upper)
  have u2: "f2 \<le> x2 * C + h" unfolding C_def h_def f2_def using x(2) by (rule fl32_upper)
  have u3: "S \<le> (f1 + f2) * C + h" unfolding C_def h_def S using f by (intro fl32_upper) simp
  have "f1 + f2 \<le> T * C + 2 * h" unfolding T using u1 u2 by (simp add: distrib_right)
  then have "(f1 + f2) * C \<le> (T * C + 2 * h) * C" using C(1) by (rule mult_right_mono)
  moreover have "(T * C + 2 * h) * C = T * C * C + 2 * h * C" by (simp add: distrib_right)
  moreover have "2 * h * C \<le> 2 * h * (3 / 2)" using C h by (intro mult_left_mono) simp_all
  ultimately show "S \<le> T * C * C + 4 * h" using u3 by linarith
qed

lemma sq_le_sq:
  fixes v w :: real
  assumes "\<bar>v\<bar> \<le> w"
  shows "v * v \<le> w * w"
proof -
  have "\<bar>v\<bar> * \<bar>v\<bar> \<le> w * w" using assms by (intro mult_mono) simp_all
  then show ?thesis by simp
qed

lemma abs_le_46:
  fixes v :: real
  assumes "v * v \<le> 2048"
  shows "\<bar>v\<bar> \<le> 46"
proof (rule ccontr)
  assume "\<not> \<bar>v\<bar> \<le> 46"
  then have "46 < \<bar>v\<bar>" by simp
  then have "46 * 46 < \<bar>v\<bar> * \<bar>v\<bar>" by (intro mult_strict_mono) simp_all
  then show False using assms by simp
qed

lemma rescaled_component:
  fixes v k :: real
  assumes v: "v * v \<le> 2048" and k: "0 \<le> k" "k \<le> 4"
  defines "C \<equiv> 1 + 1 / 2 ^ 24" and "h \<equiv> 1 / 2 ^ 150"
  shows "fl32 (v * k) * fl32 (v * k) \<le> v * v * (k * k) * (C * C) + 553 * h"
proof -
  have C: "0 \<le> C" "C \<le> 3 / 2" by (simp_all add: C_def)
  have h: "0 \<le> h" "h \<le> 1" by (simp_all add: h_def)
  have av: "\<bar>v\<bar> \<le> 46" using v by (rule abs_le_46)
  define m where "m = \<bar>v\<bar> * k * C"
  have m0: "0 \<le> m" using k C by (simp add: m_def)
  have vk: "\<bar>v\<bar> * k \<le> 46 * 4" using av k by (intro mult_mono) simp_all
  have "(\<bar>v\<bar> * k) * C \<le> (46 * 4) * (3 / 2)"
  proof (rule mult_mono)
    show "\<bar>v\<bar> * k \<le> 46 * 4" by (rule vk)
    show "C \<le> 3 / 2" by (rule C)
    show "0 \<le> (46::real) * 4" by simp
    show "0 \<le> C" by (rule C)
  qed
  then have m1: "m \<le> 276" by (simp add: m_def)
  have "\<bar>fl32 (v * k)\<bar> \<le> \<bar>v * k\<bar> * C + h"
    unfolding C_def h_def by (rule fl32_abs_upper)
  also have "\<bar>v * k\<bar> = \<bar>v\<bar> * k" using k by (simp add: abs_mult)
  finally have "\<bar>fl32 (v * k)\<bar> \<le> m + h" by (simp add: m_def)
  then have "fl32 (v * k) * fl32 (v * k) \<le> (m + h) * (m + h)" by (rule sq_le_sq)
  also have "\<dots> = m * m + 2 * m * h + h * h" by (simp add: algebra_simps)
  also have "\<dots> \<le> m * m + 2 * 276 * h + 1 * h"
  proof -
    have "2 * m * h \<le> 2 * 276 * h" using m1 h by (intro mult_right_mono) simp_all
    moreover have "h * h \<le> 1 * h" using h by (intro mult_right_mono) simp_all
    ultimately show ?thesis by linarith
  qed
  also have "m * m = v * v * (k * k) * (C * C)"
  proof -
    have "\<bar>v\<bar> * \<bar>v\<bar> = v * v" by simp
    then show ?thesis unfolding m_def by (simp add: algebra_simps)
  qed
  finally show ?thesis by simp
qed

lemma scale_factor_bound:
  fixes T S :: real
  assumes T: "0 \<le> T" "T \<le> 2048" and S: "400 < S"
    and lo: "T * (1 - 1 / 2 ^ 24) * (1 - 1 / 2 ^ 24) - 3 / 2 ^ 150 \<le> S"
  defines "k \<equiv> fl32 (sqrt (fl32 (400 / S)))"
  defines "C \<equiv> 1 + 1 / 2 ^ 24" and "h \<equiv> 1 / 2 ^ 150"
  shows "0 \<le> k" and "k \<le> 4"
    and "T * (k * k) \<le> (400 * (1 + 1 / 2 ^ 22) * C + 2048 * h) * (C * C) + 14336 * h"
proof -
  have C: "0 \<le> C" "C \<le> 3 / 2" by (simp_all add: C_def)
  have h: "0 \<le> h" "h \<le> 1" by (simp_all add: h_def)
  define x where "x = 400 / S"
  define q where "q = fl32 x"
  define r where "r = sqrt q"
  have k: "k = fl32 r" by (simp add: k_def r_def q_def x_def)
  have x0: "0 \<le> x" and x1: "x \<le> 1" using S by (simp_all add: x_def)
  have q0: "0 \<le> q" using x0 by (simp add: q_def fl32_nonneg)
  have qu: "q \<le> x * C + h" unfolding q_def C_def h_def using x0 by (rule fl32_upper)
  have "x * C \<le> 1 * (3 / 2)" using x0 x1 C by (intro mult_mono) simp_all
  then have q4: "q \<le> 4" using qu h by linarith
  have r0: "0 \<le> r" using q0 by (simp add: r_def)
  have rr: "r * r = q" using q0 by (simp add: r_def)
  have "sqrt q \<le> sqrt 4" using q4 by (simp only: real_sqrt_le_iff)
  then have r2: "r \<le> 2" by (simp add: r_def)
  show k0: "0 \<le> k" unfolding k using r0 by (rule fl32_nonneg)
  have ku: "k \<le> r * C + h" unfolding k C_def h_def using r0 by (rule fl32_upper)
  have rC: "r * C \<le> 2 * (3 / 2)" using r0 r2 C by (intro mult_mono) simp_all
  then show k4: "k \<le> 4" using ku h by linarith
  have "k * k \<le> (r * C + h) * (r * C + h)"
    using k0 ku by (intro mult_mono) (simp_all add: r0 C h)
  also have "\<dots> = r * r * (C * C) + 2 * (r * C) * h + h * h" by (simp add: algebra_simps)
  also have "\<dots> \<le> q * (C * C) + 2 * 3 * h + 1 * h"
  proof -
    have "2 * (r * C) \<le> 2 * 3" using rC by linarith
    then have "2 * (r * C) * h \<le> 2 * 3 * h" using h(1) by (rule mult_right_mono)
    moreover have "h * h \<le> 1 * h" using h by (intro mult_right_mono) simp_all
    ultimately show ?thesis unfolding rr by linarith
  qed
  finally have kk: "k * k \<le> q * (C * C) + 7 * h" by simp
  have "400 * T \<le> 400 * (1 + 1 / 2 ^ 22) * S"
    using lo T S by (simp add: algebra_simps)
  then have P: "x * T \<le> 400 * (1 + 1 / 2 ^ 22)"
    using S by (simp add: x_def pos_divide_le_eq)
  have "T * q \<le> T * (x * C + h)" using qu T by (intro mult_left_mono) simp_all
  also have "\<dots> = x * T * C + T * h" by (simp add: algebra_simps)
  also have "\<dots> \<le> 400 * (1 + 1 / 2 ^ 22) * C + 2048 * h"
  proof -
    have "x * T * C \<le> 400 * (1 + 1 / 2 ^ 22) * C" using P C by (intro mult_right_mono) simp_all
    moreover have "T * h \<le> 2048 * h" using T h by (intro mult_right_mono) simp_all
    ultimately show ?thesis by linarith
  qed
  finally have Tq: "T * q \<le> 400 * (1 + 1 / 2 ^ 22) * C + 2048 * h" .
  have "T * (k * k) \<le> T * (q * (C * C) + 7 * h)" using kk T by (intro mult_left_mono) simp_all
  also have "\<dots> = T * q * (C * C) + 7 * (T * h)" by (simp add: algebra_simps)
  also have "\<dots> \<le> (400 * (1 + 1 / 2 ^ 22) * C + 2048 * h) * (C * C) + 7 * (2048 * h)"
  proof -
    have "T * q * (C * C) \<le> (400 * (1 + 1 / 2 ^ 22) * C + 2048 * h) * (C * C)"
      using Tq C by (intro mult_right_mono) simp_all
    moreover have "T * h \<le> 2048 * h" using T h by (intro mult_right_mono) simp_all
    ultimately show ?thesis by linarith
  qed
  finally show "T * (k * k) \<le> (400 * (1 + 1 / 2 ^ 22) * C + 2048 * h) * (C * C) + 14336 * h"
    by simp
qed

lemma rounded_clamp_bound:
  fixes a b :: real
  assumes T: "a * a + b * b \<le> 2048"
  defines "S \<equiv> fl32 (fl32 (a * a) + fl32 (b * b))"
  defines "k \<equiv> fl32 (sqrt (fl32 (400 / S)))"
  shows "S \<le> 400 \<Longrightarrow> a * a + b * b \<le> 400 * (1 + 1 / 2 ^ 20)"
    and "400 < S \<Longrightarrow>
           fl32 (a * k) * fl32 (a * k) + fl32 (b * k) * fl32 (b * k) \<le> 400 * (1 + 1 / 2 ^ 20)"
proof -
  define T where "T = a * a + b * b"
  define C :: real where "C = 1 + 1 / 2 ^ 24"
  define h :: real where "h = 1 / 2 ^ 150"
  have T0: "0 \<le> T" "T \<le> 2048" using T by (simp_all add: T_def)
  have lo: "T * (1 - 1 / 2 ^ 24) * (1 - 1 / 2 ^ 24) - 3 / 2 ^ 150 \<le> S"
    using sum_sq_rounded(1)[of a b] by (simp add: T_def S_def)
  {
    assume "S \<le> 400"
    then have "T \<le> 400 * (1 + 1 / 2 ^ 20)"
      using lo by (simp add: algebra_simps)
    then show "a * a + b * b \<le> 400 * (1 + 1 / 2 ^ 20)" by (simp add: T_def)
  }
  {
    assume S: "400 < S"
    have k0: "0 \<le> k" and k4: "k \<le> 4"
      and Tk: "T * (k * k) \<le> (400 * (1 + 1 / 2 ^ 22) * C + 2048 * h) * (C * C) + 14336 * h"
      using scale_factor_bound[OF T0 S lo] by (simp_all add: k_def C_def h_def)
    have a: "a * a \<le> 2048" and b: "b * b \<le> 2048"
    proof -
      have "0 \<le> a * a" "0 \<le> b * b" by simp_all
      then show "a * a \<le> 2048" "b * b \<le> 2048" using T by linarith+
    qed
    have A: "fl32 (a * k) * fl32 (a * k) \<le> a * a * (k * k) * (C * C) + 553 * h"
      using rescaled_component[OF a k0 k4] by (simp add: C_def h_def)
    have B: "fl32 (b * k) * fl32 (b * k) \<le> b * b * (k * k) * (C * C) + 553 * h"
      using rescaled_component[OF b k0 k4] by (simp add: C_def h_def)
    have "a * a * (k * k) * (C * C) + b * b * (k * k) * (C * C) = T * (k * k) * (C * C)"
      by (simp add: T_def algebra_simps)
    moreover have "T * (k * k) * (C * C) \<le>
        ((400 * (1 + 1 / 2 ^ 22) * C + 2048 * h) * (C * C) + 14336 * h) * (C * C)"
      using Tk by (intro mult_right_mono) (simp_all add: C_def)
    moreover have "((400 * (1 + 1 / 2 ^ 22) * C + 2048 * h) * (C * C) + 14336 * h) * (C * C) + 1106 * h
        \<le> 400 * (1 + 1 / 2 ^ 20)"
      by (simp add: C_def h_def)
    ultimately show "fl32 (a * k) * fl32 (a * k) + fl32 (b * k) * fl32 (b * k) \<le> 400 * (1 + 1 / 2 ^ 20)"
      using A B by linarith
  }
qed

subsection \<open>The speed limit\<close>

lemma limitSpeed_bound:
  assumes "fs_vx st * fs_vx st + fs_vy st * fs_vy st \<le> 2048"
  shows "fs_vx (limitSpeed st) * fs_vx (limitSpeed st) + fs_vy (limitSpeed st) * fs_vy (limitSpeed st)
           \<le> 400 * (1 + 1 / 2 ^ 20)"
proof (cases "fl32 (fl32 (fs_vx st * fs_vx st) + fl32 (fs_vy st * fs_vy st)) > 400")
  case True
  then show ?thesis
    using rounded_clamp_bound(2)[OF assms True]
    by (simp add: limitSpeed_def Let_def)
next
  case False
  then have "fl32 (fl32 (fs_vx st * fs_vx st) + fl32 (fs_vy st * fs_vy st)) \<le> 400" by simp
  from rounded_clamp_bound(1)[OF assms this] False show ?thesis
    by (simp add: limitSpeed_def Let_def)
qed

lemma limitSpeed_fields:
  shows "fs_active (limitSpeed st) = fs_active st"
    and "fs_hasTrail (limitSpeed st) = fs_hasTrail st"
    and "fs_distance (limitSpeed st) = fs_distance st"
    and "fs_x (limitSpeed st) = fs_x st"
    and "fs_y (limitSpeed st) = fs_y st"
    and "fs_spinFactor (limitSpeed st) = fs_spinFactor st"
  by (simp_all add: limitSpeed_def Let_def)

lemma abs_le_21:
  fixes v w :: real
  assumes "v * v + w * w \<le> 400 * (1 + 1 / 2 ^ 20)"
  shows "\<bar>v\<bar> \<le> 21"
proof (rule ccontr)
  assume "\<not> \<bar>v\<bar> \<le> 21"
  then have "21 < \<bar>v\<bar>" by simp
  then have 1: "21 * 21 < \<bar>v\<bar> * \<bar>v\<bar>" by (intro mult_strict_mono) simp_all
  have 2: "\<bar>v\<bar> * \<bar>v\<bar> = v * v" by simp
  have 3: "0 \<le> w * w" by (rule zero_le_square)
  have 4: "400 * (1 + 1 / 2 ^ 20) \<le> (401::real)" by simp
  have 5: "(21::real) * 21 = 441" by simp
  from assms 1 2 3 4 5 show False by linarith
qed

lemma component_le_dist:
  fixes dx dy :: real
  assumes "0 < sqrt (dx * dx + dy * dy)"
  shows "\<bar>dx / sqrt (dx * dx + dy * dy)\<bar> \<le> 1"
proof -
  have "dx * dx \<le> dx * dx + dy * dy" by simp
  then have "sqrt (dx * dx) \<le> sqrt (dx * dx + dy * dy)" by (simp only: real_sqrt_le_iff)
  then have "\<bar>dx\<bar> \<le> sqrt (dx * dx + dy * dy)" by simp
  then show ?thesis using assms by simp
qed

text \<open>
  The acceleration of lines 337--352 is at most 58 in each component: gravity is capped at 50
  and the spin strength at 8, both along unit vectors.
\<close>

lemma accelerate_form:
  assumes d: "d = sqrt (dx * dx + dy * dy)" and far: "d > 0.1" and spin: "0 \<le> fs_spinFactor st"
  shows "\<exists>ax ay. \<bar>ax\<bar> \<le> 58 \<and> \<bar>ay\<bar> \<le> 58 \<and>
           accelerate s dt dx dy d st =
             limitSpeed (st\<lparr>fs_vx := fs_vx st + ax * dt, fs_vy := fs_vy st + ay * dt\<rparr>)"
proof -
  define g where "g = min ((blackHoleRadius s * blackHoleRadius s * 150) /
                           max (dx * dx + dy * dy) (blackHoleRadius s * 0.5)) 50"
  define w where "w = min (fs_spinFactor st * 1.5 *
                           (blackHoleRadius s * 4 / max d (blackHoleRadius s * 4 * 0.1))) 8"
  define sp where "sp \<longleftrightarrow> d < blackHoleRadius s * 8"
  define ax where "ax = (if sp then dx / d * g + (- dy / d) * w else dx / d * g)"
  define ay where "ay = (if sp then dy / d * g + (dx / d) * w else dy / d * g)"
  have d0: "0 < d" using far by simp
  have ux: "\<bar>dx / d\<bar> \<le> 1" using component_le_dist[of dx dy] d0 unfolding d by simp
  have "\<bar>dy / sqrt (dy * dy + dx * dx)\<bar> \<le> 1"
    using d0 unfolding d by (intro component_le_dist) (simp add: add.commute)
  then have uy: "\<bar>dy / d\<bar> \<le> 1" unfolding d by (simp add: add.commute)
  have "0 < dx * dx + dy * dy"
    using d0 unfolding d by (simp only: real_sqrt_gt_0_iff)
  then have "0 < max (dx * dx + dy * dy) (blackHoleRadius s * 0.5)" by simp
  then have "0 \<le> (blackHoleRadius s * blackHoleRadius s * 150) /
                max (dx * dx + dy * dy) (blackHoleRadius s * 0.5)"
    by (intro divide_nonneg_pos) simp_all
  then have g: "0 \<le> g" "g \<le> 50" by (simp_all add: g_def)
  have w: "sp \<Longrightarrow> 0 \<le> w \<and> w \<le> 8"
  proof -
    assume sp
    then have r: "0 < blackHoleRadius s" using d0 by (simp add: sp_def)
    have "0 < max d (blackHoleRadius s * 4 * 0.1)" using d0 by simp
    then have "0 \<le> blackHoleRadius s * 4 / max d (blackHoleRadius s * 4 * 0.1)"
      using r by (intro divide_nonneg_pos) simp_all
    then have "0 \<le> fs_spinFactor st * 1.5 *
        (blackHoleRadius s * 4 / max d (blackHoleRadius s * 4 * 0.1))"
      using spin by (intro mult_nonneg_nonneg) simp_all
    then show ?thesis by (simp add: w_def)
  qed
  have xg: "\<bar>dx / d * g\<bar> \<le> 50" and yg: "\<bar>dy / d * g\<bar> \<le> 50"
  proof -
    have "\<bar>dx / d\<bar> * \<bar>g\<bar> \<le> 1 * 50" using ux g by (intro mult_mono) simp_all
    then show "\<bar>dx / d * g\<bar> \<le> 50" by (simp add: abs_mult)
    have "\<bar>dy / d\<bar> * \<bar>g\<bar> \<le> 1 * 50" using uy g by (intro mult_mono) simp_all
    then show "\<bar>dy / d * g\<bar> \<le> 50" by (simp add: abs_mult)
  qed
  have xw: "sp \<Longrightarrow> \<bar>(- dy / d) * w\<bar> \<le> 8" and yw: "sp \<Longrightarrow> \<bar>(dx / d) * w\<bar> \<le> 8"
  proof -
    assume sp
    then have w': "0 \<le> w" "w \<le> 8" using w by simp_all
    have "\<bar>dy / d\<bar> * \<bar>w\<bar> \<le> 1 * 8" using uy w' by (intro mult_mono) simp_all
    then show "\<bar>(- dy / d) * w\<bar> \<le> 8" by (simp add: abs_mult)
    have "\<bar>dx / d\<bar> * \<bar>w\<bar> \<le> 1 * 8" using ux w' by (intro mult_mono) simp_all
    then show "\<bar>(dx / d) * w\<bar> \<le> 8" by (simp add: abs_mult)
  qed
  have ax: "\<bar>ax\<bar> \<le> 58"
  proof (cases sp)
    case True
    from xw[OF True] xg have "\<bar>dx / d * g + (- dy / d) * w\<bar> \<le> 58" by linarith
    with True show ?thesis by (simp only: ax_def if_True)
  next
    case False
    from xg have "\<bar>dx / d * g\<bar> \<le> 58" by linarith
    with False show ?thesis by (simp only: ax_def if_False)
  qed
  have ay: "\<bar>ay\<bar> \<le> 58"
  proof (cases sp)
    case True
    from yw[OF True] yg have "\<bar>dy / d * g + (dx / d) * w\<bar> \<le> 58" by linarith
    with True show ?thesis by (simp only: ay_def if_True)
  next
    case False
    from yg have "\<bar>dy / d * g\<bar> \<le> 58" by linarith
    with False show ?thesis by (simp only: ay_def if_False)
  qed
  have "accelerate s dt dx dy d st =
          limitSpeed (st\<lparr>fs_vx := fs_vx st + ax * dt, fs_vy := fs_vy st + ay * dt\<rparr>)"
    using far
    unfolding accelerate_def Let_def ax_def ay_def sp_def g_def w_def
    by simp
  with ax ay show ?thesis by blast
qed

lemma accelerate_fields:
  shows "fs_active (accelerate s dt dx dy d st) = fs_active st"
    and "fs_hasTrail (accelerate s dt dx dy d st) = fs_hasTrail st"
    and "fs_distance (accelerate s dt dx dy d st) = fs_distance st"
    and "fs_spinFactor (accelerate s dt dx dy d st) = fs_spinFactor st"
  by (simp_all add: accelerate_def Let_def limitSpeed_fields)

lemma step_component:
  fixes v a dt :: real
  assumes "\<bar>v\<bar> \<le> 21" and "\<bar>a\<bar> \<le> 58" and "0 \<le> dt" and "dt \<le> 1 / 10"
  shows "(v + a * dt) * (v + a * dt) \<le> 1024"
proof -
  have "\<bar>a\<bar> * \<bar>dt\<bar> \<le> 58 * (1 / 10)" using assms by (intro mult_mono) simp_all
  then have "\<bar>a * dt\<bar> \<le> 58 / 10" by (simp add: abs_mult)
  with assms(1) have "\<bar>v + a * dt\<bar> \<le> 32" by linarith
  then have "(v + a * dt) * (v + a * dt) \<le> 32 * 32" by (rule sq_le_sq)
  then show ?thesis by simp
qed

text \<open>
  One velocity update keeps the squared speed below \<open>400 * (1 + 2\<^sup>-\<^sup>2\<^sup>0)\<close>: the velocity
  before the clamp is within \<open>21 + 5.8\<close> in each component, where the clamp's rounding
  errors stay within the bound.
\<close>

lemma accelerate_bound:
  assumes v: "fs_vx st * fs_vx st + fs_vy st * fs_vy st \<le> 400 * (1 + 1 / 2 ^ 20)"
    and spin: "0 \<le> fs_spinFactor st"
    and dt: "0 \<le> dt" "dt \<le> 1 / 10"
    and d: "d = sqrt (dx * dx + dy * dy)"
  shows "fs_vx (accelerate s dt dx dy d st) * fs_vx (accelerate s dt dx dy d st) +
         fs_vy (accelerate s dt dx dy d st) * fs_vy (accelerate s dt dx dy d st)
           \<le> 400 * (1 + 1 / 2 ^ 20)"
proof (cases "d > 0.1")
  case True
  from accelerate_form[OF d True spin]
  obtain ax ay where ax: "\<bar>ax\<bar> \<le> 58" and ay: "\<bar>ay\<bar> \<le> 58"
    and A: "accelerate s dt dx dy d st =
              limitSpeed (st\<lparr>fs_vx := fs_vx st + ax * dt, fs_vy := fs_vy st + ay * dt\<rparr>)"
    by blast
  have vx: "\<bar>fs_vx st\<bar> \<le> 21" using v by (rule abs_le_21)
  have "fs_vy st * fs_vy st + fs_vx st * fs_vx st \<le> 400 * (1 + 1 / 2 ^ 20)"
    using v by (simp only: add.commute)
  then have vy: "\<bar>fs_vy st\<bar> \<le> 21" by (rule abs_le_21)
  have 1: "(fs_vx st + ax * dt) * (fs_vx st + ax * dt) \<le> 1024"
    using vx ax dt by (rule step_component)
  have 2: "(fs_vy st + ay * dt) * (fs_vy st + ay * dt) \<le> 1024"
    using vy ay dt by (rule step_component)
  define st' where "st' = st\<lparr>fs_vx := fs_vx st + ax * dt, fs_vy := fs_vy st + ay * dt\<rparr>"
  have "fs_vx st' * fs_vx st' + fs_vy st' * fs_vy st' \<le> 2048"
    using 1 2 by (simp add: st'_def)
  then have "fs_vx (limitSpeed st') * fs_vx (limitSpeed st') +
             fs_vy (limitSpeed st') * fs_vy (limitSpeed st') \<le> 400 * (1 + 1 / 2 ^ 20)"
    by (rule limitSpeed_bound)
  then show ?thesis unfolding A st'_def .
next
  case False
  then have "accelerate s dt dx dy d st = st" by (simp add: accelerate_def)
  then show ?thesis using v by (simp only:)
qed

lemma terminateStar_fields:
  shows "fs_vx (fst (terminateStar e s i d lx ly st)) = fs_vx st"
    and "fs_vy (fst (terminateStar e s i d lx ly st)) = fs_vy st"
    and "fs_distance (fst (terminateStar e s i d lx ly st)) = fs_distance st"
    and "\<not> fs_active (fst (terminateStar e s i d lx ly st))"
    and "fs_hasTrail (fst (terminateStar e s i d lx ly st)) \<longleftrightarrow> d \<le> blackHoleRadius s * 1.5"
    and "snd (terminateStar e s i d lx ly st) =
           (if d \<le> blackHoleRadius s * 1.5 then consumption_flash e s else [])"
    and "fs_spinFactor (fst (terminateStar e s i d lx ly st)) = fs_spinFactor st"
  by (simp_all add: terminateStar_def)

lemma updateFallingStar_speed:
  assumes v: "fs_vx st * fs_vx st + fs_vy st * fs_vy st \<le> 400 * (1 + 1 / 2 ^ 20)"
    and spin: "0 \<le> fs_spinFactor st"
    and dt: "0 \<le> dt" "dt \<le> 1 / 10"
  shows "fs_vx (fst (updateFallingStar e s dt i st)) * fs_vx (fst (updateFallingStar e s dt i st)) +
         fs_vy (fst (updateFallingStar e s dt i st)) * fs_vy (fst (updateFallingStar e s dt i st))
           \<le> 400 * (1 + 1 / 2 ^ 20)"
    and "0 \<le> fs_spinFactor (fst (updateFallingStar e s dt i st))"
proof -
  define dx where "dx = real_of_int (objectX e) - fs_x st"
  define dy where "dy = real_of_int (objectY e) - fs_y st"
  define st1 where "st1 = st\<lparr>fs_prevX := - 1, fs_distance := sqrt (dx * dx + dy * dy)\<rparr>"
  define st2 where "st2 = accelerate s dt dx dy (sqrt (dx * dx + dy * dy)) st1"
  have v1: "fs_vx st1 * fs_vx st1 + fs_vy st1 * fs_vy st1 \<le> 400 * (1 + 1 / 2 ^ 20)"
    using v by (simp add: st1_def)
  have s1: "0 \<le> fs_spinFactor st1" using spin by (simp add: st1_def)
  have b: "fs_vx st2 * fs_vx st2 + fs_vy st2 * fs_vy st2 \<le> 400 * (1 + 1 / 2 ^ 20)"
    unfolding st2_def using v1 s1 dt by (rule accelerate_bound) (rule refl)
  have s2: "0 \<le> fs_spinFactor st2"
    using s1 by (simp add: st2_def accelerate_fields)
  show "fs_vx (fst (updateFallingStar e s dt i st)) * fs_vx (fst (updateFallingStar e s dt i st)) +
         fs_vy (fst (updateFallingStar e s dt i st)) * fs_vy (fst (updateFallingStar e s dt i st))
           \<le> 400 * (1 + 1 / 2 ^ 20)"
  proof (cases "fs_active st")
    case False
    then show ?thesis using v by (simp add: updateFallingStar_def Let_def)
  next
    case True
    then show ?thesis
      using b
      by (simp add: updateFallingStar_def Let_def terminateStar_fields
            dx_def[symmetric] dy_def[symmetric] st1_def[symmetric] st2_def[symmetric])
  qed
  show "0 \<le> fs_spinFactor (fst (updateFallingStar e s dt i st))"
  proof (cases "fs_active st")
    case False
    then show ?thesis using spin by (simp add: updateFallingStar_def Let_def)
  next
    case True
    then show ?thesis
      using s2
      by (simp add: updateFallingStar_def Let_def terminateStar_fields
            dx_def[symmetric] dy_def[symmetric] st1_def[symmetric] st2_def[symmetric])
  qed
qed

lemma deltaTime_bounds: "0 \<le> deltaTime t0 t1 \<and> deltaTime t0 t1 \<le> 1 / 10"
  by (simp add: deltaTime_def Let_def)

lemma spawnFallingStar_speed:
  shows "fs_vx (spawnFallingStar e st) * fs_vx (spawnFallingStar e st) +
         fs_vy (spawnFallingStar e st) * fs_vy (spawnFallingStar e st) \<le> 81 / 100"
    and "0 \<le> fs_spinFactor (spawnFallingStar e st)"
proof -
  define v where "v = real_of_int (random_range 4 10 (rnd_speed e)) / 10"
  have rb: "4 \<le> random_range 4 10 (rnd_speed e) \<and> random_range 4 10 (rnd_speed e) < 10"
    by (rule random_range_bounds) simp
  then have "random_range 4 10 (rnd_speed e) \<le> 9" by simp
  then have "real_of_int (random_range 4 10 (rnd_speed e)) \<le> 9" by simp
  then have v: "0 \<le> v" "v \<le> 9 / 10" using rb by (simp_all add: v_def)
  have "v * v \<le> 9 / 10 * (9 / 10)" using v by (intro mult_mono) simp_all
  then have vv: "v * v \<le> 81 / 100" by simp
  have "\<exists>a. fs_vx (spawnFallingStar e st) = cos a * v \<and> fs_vy (spawnFallingStar e st) = sin a * v"
    unfolding v_def
    by (simp add: spawnFallingStar_def Let_def split: prod.splits) blast
  then obtain a where vx: "fs_vx (spawnFallingStar e st) = cos a * v"
      and vy: "fs_vy (spawnFallingStar e st) = sin a * v"
    by blast
  have "cos a * v * (cos a * v) + sin a * v * (sin a * v) = (cos a * cos a + sin a * sin a) * (v * v)"
    by (simp only: algebra_simps)
  also have "\<dots> = v * v"
    using sin_cos_squared_add2[of a] by (simp add: power2_eq_square)
  finally show "fs_vx (spawnFallingStar e st) * fs_vx (spawnFallingStar e st) +
         fs_vy (spawnFallingStar e st) * fs_vy (spawnFallingStar e st) \<le> 81 / 100"
    unfolding vx vy using vv by simp
  have "50 \<le> random_range 50 200 (rnd_spin e) \<and> random_range 50 200 (rnd_spin e) < 200"
    by (rule random_range_bounds) simp
  then have "0 \<le> real_of_int (random_range 50 200 (rnd_spin e)) / 100" by simp
  then show "0 \<le> fs_spinFactor (spawnFallingStar e st)"
    by (simp add: spawnFallingStar_def Let_def split: prod.splits)
qed

lemma spawnFallingStar_ok:
  "fs_vx (spawnFallingStar e st) * fs_vx (spawnFallingStar e st) +
   fs_vy (spawnFallingStar e st) * fs_vy (spawnFallingStar e st) \<le> 400 * (1 + 1 / 2 ^ 20) \<and>
   0 \<le> fs_spinFactor (spawnFallingStar e st)"
proof -
  have "(81 / 100 :: real) \<le> 400 * (1 + 1 / 2 ^ 20)" by simp
  with spawnFallingStar_speed(1)[of e st] spawnFallingStar_speed(2)[of e st]
  show ?thesis by linarith
qed

lemma spawnLoop_speed:
  assumes "\<forall>st\<in>set sts. fs_vx st * fs_vx st + fs_vy st * fs_vy st \<le> 400 * (1 + 1 / 2 ^ 20) \<and>
                          0 \<le> fs_spinFactor st"
  shows "\<forall>st\<in>set (fst (spawnLoop e i sts)).
           fs_vx st * fs_vx st + fs_vy st * fs_vy st \<le> 400 * (1 + 1 / 2 ^ 20) \<and> 0 \<le> fs_spinFactor st"
  using assms
proof (induction sts arbitrary: i)
  case Nil
  then show ?case by simp
next
  case (Cons a sts)
  show ?case
  proof (cases "\<not> fs_active a \<and> \<not> fs_hasTrail a")
    case True
    then have "fst (spawnLoop e i (a # sts)) = spawnFallingStar e a # sts" by simp
    then show ?thesis using Cons.prems spawnFallingStar_ok[of e a] by simp
  next
    case False
    then have "fst (spawnLoop e i (a # sts)) = a # fst (spawnLoop e (Suc i) sts)"
      by (auto split: prod.splits)
    then show ?thesis using Cons.IH[of "Suc i"] Cons.prems by simp
  qed
qed

lemma in_map_fst: "y \<in> set (map fst xs) \<Longrightarrow> \<exists>r\<in>set xs. y = fst r"
  by auto

lemma spawnFallingStars_speed:
  assumes "\<forall>st\<in>set (fallingStars s).
             fs_vx st * fs_vx st + fs_vy st * fs_vy st \<le> 400 * (1 + 1 / 2 ^ 20) \<and> 0 \<le> fs_spinFactor st"
  shows "\<forall>st\<in>set (fallingStars (spawnFallingStars e s)).
           fs_vx st * fs_vx st + fs_vy st * fs_vy st \<le> 400 * (1 + 1 / 2 ^ 20) \<and> 0 \<le> fs_spinFactor st"
proof -
  have "fallingStars (spawnFallingStars e s) = fallingStars s \<or>
        fallingStars (spawnFallingStars e s) = fst (spawnLoop e 0 (fallingStars s))"
    by (simp add: spawnFallingStars_def split: prod.splits option.splits)
  then show ?thesis using assms spawnLoop_speed[OF assms] by auto
qed

text \<open>
  The invariant of the star pool: the squared speed is at most \<open>400 * (1 + 2\<^sup>-\<^sup>2\<^sup>0)\<close> and
  the spin factor is not negative (it is 0 before the first spawn and in \<open>[0.5, 2)\<close> after).
\<close>

lemma reachable_speed:
  "reachable s \<Longrightarrow>
     \<forall>st\<in>set (fallingStars s).
       fs_vx st * fs_vx st + fs_vy st * fs_vy st \<le> 400 * (1 + 1 / 2 ^ 20) \<and> 0 \<le> fs_spinFactor st"
proof (induction rule: reachable.induct)
  case reachable_initial
  then show ?case by (simp add: initial_state_def zeroStar_def)
next
  case (reachable_draw s e)
  have 1: "\<forall>st\<in>set (fallingStars (frameStart e s)).
             fs_vx st * fs_vx st + fs_vy st * fs_vy st \<le> 400 * (1 + 1 / 2 ^ 20) \<and> 0 \<le> fs_spinFactor st"
    using reachable_draw.IH
    by (auto simp: frameStart_def initializeOnFirstRun_def computeRadii_def Let_def)
  have dt: "0 \<le> frameDelta e s" "frameDelta e s \<le> 1 / 10"
    using deltaTime_bounds[of "millis_start e" "blackHoleLastUpdateTime (frameStart e s)"]
    by (simp_all add: frameDelta_def)
  have 2: "\<forall>st\<in>set (fallingStars (fst (afterStarUpdate e s))).
             fs_vx st * fs_vx st + fs_vy st * fs_vy st \<le> 400 * (1 + 1 / 2 ^ 20) \<and> 0 \<le> fs_spinFactor st"
  proof
    fix st assume "st \<in> set (fallingStars (fst (afterStarUpdate e s)))"
    then have "\<exists>r\<in>set (map (\<lambda>(i, st). updateFallingStar e (afterDiskUpdate e s) (frameDelta e s) i st)
                        (enumerate 0 (fallingStars (frameStart e s)))). st = fst r"
      unfolding afterStarUpdate_fields by (rule in_map_fst)
    then obtain r where r: "r \<in> set (map (\<lambda>(i, st). updateFallingStar e (afterDiskUpdate e s) (frameDelta e s) i st)
                        (enumerate 0 (fallingStars (frameStart e s))))" and st: "st = fst r"
      by blast
    from r obtain i st0 where st0: "st0 \<in> set (fallingStars (frameStart e s))"
        and u: "r = updateFallingStar e (afterDiskUpdate e s) (frameDelta e s) i st0"
      by (blast dest: in_enumerate_map)
    from st0 1 have v0: "fs_vx st0 * fs_vx st0 + fs_vy st0 * fs_vy st0 \<le> 400 * (1 + 1 / 2 ^ 20)"
      and s0: "0 \<le> fs_spinFactor st0" by blast+
    show "fs_vx st * fs_vx st + fs_vy st * fs_vy st \<le> 400 * (1 + 1 / 2 ^ 20) \<and> 0 \<le> fs_spinFactor st"
      unfolding st u
      using updateFallingStar_speed(1)[OF v0 s0 dt] updateFallingStar_speed(2)[OF v0 s0 dt]
      by (rule conjI)
  qed
  show ?case
    unfolding drawBlackHole_fields using 2 by (rule spawnFallingStars_speed)
next
  case (reachable_erase s e)
  then show ?case by (simp add: eraseBlackHole_def Let_def split: if_splits)
qed

lemma updateFallingStar_terminated:
  assumes act: "fs_active st" and inact: "\<not> fs_active (fst (updateFallingStar e s dt i st))"
  defines "d \<equiv> sqrt ((real_of_int (objectX e) - fs_x st) * (real_of_int (objectX e) - fs_x st) +
                      (real_of_int (objectY e) - fs_y st) * (real_of_int (objectY e) - fs_y st))"
  shows "fs_distance (fst (updateFallingStar e s dt i st)) = d"
    and "fs_hasTrail (fst (updateFallingStar e s dt i st)) \<longleftrightarrow> d \<le> blackHoleRadius s * 1.5"
    and "snd (updateFallingStar e s dt i st) =
           (if d \<le> blackHoleRadius s * 1.5 then consumption_flash e s else [])"
proof -
  define dx where "dx = real_of_int (objectX e) - fs_x st"
  define dy where "dy = real_of_int (objectY e) - fs_y st"
  have d: "d = sqrt (dx * dx + dy * dy)" by (simp add: d_def dx_def dy_def)
  define st2 where "st2 = accelerate s dt dx dy d (st\<lparr>fs_prevX := - 1, fs_distance := d\<rparr>)"
  define st3 where "st3 = st2\<lparr>fs_x := fs_x st2 + fs_vx st2 * dt, fs_y := fs_y st2 + fs_vy st2 * dt\<rparr>"
  define gone where "gone \<longleftrightarrow> d \<le> blackHoleRadius s \<or> round_c (fs_x st3) < - 10 \<or>
      round_c (fs_x st3) \<ge> SCREEN_WIDTH e + 10 \<or> round_c (fs_y st3) < - 10 \<or>
      round_c (fs_y st3) \<ge> SCREEN_HEIGHT e + 10"
  have U: "updateFallingStar e s dt i st =
      (if gone then terminateStar e s i d (fs_prevX st) (fs_prevY st) st3
       else (st3\<lparr>fs_prevX := round_c (fs_x st3), fs_prevY := round_c (fs_y st3)\<rparr>, []))"
    using act
    unfolding updateFallingStar_def Let_def gone_def st3_def st2_def d dx_def dy_def
    by simp
  have a3: "fs_active st3" and d3: "fs_distance st3 = d"
    using act by (simp_all add: st3_def st2_def accelerate_fields)
  have g: gone
  proof (rule ccontr)
    assume "\<not> gone"
    then have "fs_active (fst (updateFallingStar e s dt i st))" by (simp add: U a3)
    with inact show False by simp
  qed
  show "fs_distance (fst (updateFallingStar e s dt i st)) = d"
    by (simp add: U g terminateStar_fields d3)
  show "fs_hasTrail (fst (updateFallingStar e s dt i st)) \<longleftrightarrow> d \<le> blackHoleRadius s * 1.5"
    by (simp add: U g terminateStar_fields)
  show "snd (updateFallingStar e s dt i st) =
           (if d \<le> blackHoleRadius s * 1.5 then consumption_flash e s else [])"
    by (simp add: U g terminateStar_fields)
qed

lemma scenario_state_radii:
  shows "blackHoleRadius scenario_state = 14"
    and "diskInnerRadius scenario_state = 16.8"
    and "diskOuterRadius scenario_state = 28"
  by (simp_all add: scenario_state_def computeRadii_def scenario_env_def Let_def)

lemma random_range_0: "lo < hi \<Longrightarrow> random_range lo hi 0 = lo"
  by (simp add: random_range_def random_upto_def)

lemma init_rf:
  "ap_relativistic_factor (initializeAccretionParticle e s ra rd p) =
     min (sqrt (blackHoleRadius s / ap_distance (initializeAccretionParticle e s ra rd p))) 0.9"
  by (simp add: initializeAccretionParticle_def calculateTrailColors_def Let_def split: prod.splits)

lemma init_distance_ge_1: "1 \<le> ap_distance (initializeAccretionParticle e s ra rd p)"
proof -
  define c where "c = max 1 (blackHoleRadius s * 1.2)"
  define f where "f = (real_of_int (random_range 0 1000 rd) / 1000)^2"
  have "0 \<le> f * (max (c + 1) (blackHoleRadius s * 2.5) - c)"
    by (rule mult_nonneg_nonneg) (simp_all add: f_def)
  moreover have "1 \<le> c" by (simp add: c_def)
  ultimately show ?thesis
    unfolding init_distance c_def[symmetric] f_def[symmetric] by linarith
qed

lemma c1_distance:
  "ap_distance (initializeAccretionParticle scenario_env scenario_state 0 500 zeroParticle) = 21.35"
  by (simp add: init_distance scenario_state_radii random_range_def random_upto_def power2_eq_square)

text \<open>
  Claim C1 states the stored relativistic factor as
  \<open>min (sqrt (diskInnerRadius / distance)) 0.9\<close>. The source takes the square root of
  \<^verbatim>\<open>blackHoleRadius / distance\<close>: at scale 1 and the raw draw 500 the distance is 21.35,
  the stored factor is \<open>sqrt (14 / 21.35)\<close> and the claimed one \<open>sqrt (16.8 / 21.35)\<close>.
\<close>

theorem relativistic_factor_counterexample:
  "ap_relativistic_factor (initializeAccretionParticle scenario_env scenario_state 0 500 zeroParticle) \<noteq>
   min (sqrt (diskInnerRadius scenario_state /
              ap_distance (initializeAccretionParticle scenario_env scenario_state 0 500 zeroParticle)))
       0.9"
proof -
  have 1: "sqrt (14 / 21.35) < sqrt (16.8 / 21.35 :: real)"
    by (simp only: real_sqrt_less_iff) simp
  have 2: "sqrt (14 / 21.35) < (0.9 :: real)"
    by (rule real_less_lsqrt) (simp_all add: power2_eq_square)
  show ?thesis
    unfolding init_rf c1_distance scenario_state_radii using 1 2 by (simp add: min_def)
qed

text \<open>
  Claim C1, amended. For every particle and every pair of random draws, with a non-negative
  event-horizon radius, (re)initialisation stores the relativistic factor
  \<open>min (sqrt (blackHoleRadius / distance)) 0.9\<close>, a value between 0 and 0.9.
\<close>

theorem relativistic_factor_from_horizon_radius:
  assumes "0 \<le> blackHoleRadius s"
  shows "ap_relativistic_factor (initializeAccretionParticle e s raw_angle raw_dist p) =
           min (sqrt (blackHoleRadius s /
                      ap_distance (initializeAccretionParticle e s raw_angle raw_dist p))) 0.9
         \<and> 0 \<le> ap_relativistic_factor (initializeAccretionParticle e s raw_angle raw_dist p)
         \<and> ap_relativistic_factor (initializeAccretionParticle e s raw_angle raw_dist p) \<le> 0.9"
proof -
  have d: "ap_distance (initializeAccretionParticle e s raw_angle raw_dist p) \<ge> 1"
    by (rule init_distance_ge_1)
  then have "0 \<le> sqrt (blackHoleRadius s / ap_distance (initializeAccretionParticle e s raw_angle raw_dist p))"
    using assms by simp
  then show ?thesis unfolding init_rf by (simp add: min_def)
qed

theorem relativistic_factor_witness:
  "0 \<le> blackHoleRadius scenario_state \<and>
   ap_relativistic_factor (initializeAccretionParticle scenario_env scenario_state 0 500 zeroParticle) =
     sqrt (14 / 21.35)"
proof -
  have 2: "sqrt (14 / 21.35) < (0.9 :: real)"
    by (rule real_less_lsqrt) (simp_all add: power2_eq_square)
  have h: "0 \<le> blackHoleRadius scenario_state" by (simp add: scenario_state_radii)
  from relativistic_factor_from_horizon_radius[OF h, of scenario_env 0 500 zeroParticle] h 2
  show ?thesis
    unfolding c1_distance scenario_state_radii by (simp add: min_def)
qed

text \<open>
  Claim C6. With scale 1 a frame computes the radii 14, 16.8 and 28; a particle initialised
  with the minimum draw (\<open>randFactor = 0\<close>) gets the distance \<open>currentDiskInnerRadius\<close>,
  which is \<open>max 1 (blackHoleRadius * 1.2)\<close> and here 16.8.
\<close>

theorem scenario_radii_and_minimum_draw:
  assumes "objectScale e = 1" and "random_range 0 1000 raw_dist = 0"
  shows "blackHoleRadius (computeRadii e s) = 14 \<and>
         diskInnerRadius (computeRadii e s) = 16.8 \<and>
         diskOuterRadius (computeRadii e s) = 28.0 \<and>
         ap_distance (initializeAccretionParticle e (computeRadii e s) raw_angle raw_dist p) =
           max 1 (blackHoleRadius (computeRadii e s) * 1.2) \<and>
         ap_distance (initializeAccretionParticle e (computeRadii e s) raw_angle raw_dist p) = 16.8"
  using assms by (simp add: init_distance computeRadii_def Let_def)

theorem scenario_radii_and_minimum_draw_witness:
  "objectScale scenario_env = 1 \<and> random_range 0 1000 0 = 0 \<and>
   blackHoleRadius (computeRadii scenario_env initial_state) = 14 \<and>
   diskInnerRadius (computeRadii scenario_env initial_state) = 16.8 \<and>
   diskOuterRadius (computeRadii scenario_env initial_state) = 28 \<and>
   ap_distance (initializeAccretionParticle scenario_env (computeRadii scenario_env initial_state) 0 0 zeroParticle) = 16.8"
proof -
  have a: "objectScale scenario_env = 1" by (simp add: scenario_env_def)
  have b: "random_range 0 1000 0 = 0" by (simp add: random_range_0)
  from scenario_radii_and_minimum_draw[OF a b, of initial_state 0 zeroParticle] a b
  show ?thesis by simp
qed

lemma length_accretionDisk_afterDiskUpdate:
  "length (accretionDisk (afterDiskUpdate e s)) = length (accretionDisk s)"
  by (simp add: afterDiskUpdate_fields afterErase_fields frameStart_def initializeOnFirstRun_def
        computeRadii_def Let_def)

lemma spawnLoop_length: "length (fst (spawnLoop e i sts)) = length sts"
proof (induction sts arbitrary: i)
  case Nil
  then show ?case by simp
next
  case (Cons a sts)
  show ?case
  proof (cases "\<not> fs_active a \<and> \<not> fs_hasTrail a")
    case True
    then show ?thesis by simp
  next
    case False
    then have "fst (spawnLoop e i (a # sts)) = a # fst (spawnLoop e (Suc i) sts)"
      by (auto split: prod.splits)
    then show ?thesis using Cons.IH[of "Suc i"] by simp
  qed
qed

lemma spawnFallingStars_stars:
  "fallingStars (spawnFallingStars e s) = fallingStars s \<or>
   fallingStars (spawnFallingStars e s) = fst (spawnLoop e 0 (fallingStars s))"
  by (simp add: spawnFallingStars_def split: prod.splits option.splits)

lemma length_fallingStars_drawBlackHole:
  "length (fallingStars (fst (drawBlackHole e s))) = length (fallingStars s)"
proof -
  have 1: "length (fallingStars (fst (afterStarUpdate e s))) = length (fallingStars s)"
    by (simp add: afterStarUpdate_fields frameStart_def initializeOnFirstRun_def
          computeRadii_def Let_def)
  have "length (fallingStars (spawnFallingStars e (fst (afterStarUpdate e s)))) =
        length (fallingStars (fst (afterStarUpdate e s)))"
    using spawnFallingStars_stars[of e "fst (afterStarUpdate e s)"]
      spawnLoop_length[of e 0 "fallingStars (fst (afterStarUpdate e s))"]
    by auto
  with 1 show ?thesis by (simp add: drawBlackHole_fields)
qed

lemma first_particle_in_disk:
  "accretionDisk (afterDiskUpdate scenario_env initial_state) ! 0
     \<in> set (accretionDisk (afterDiskUpdate scenario_env initial_state))"
  by (rule nth_mem)
     (simp add: length_accretionDisk_afterDiskUpdate initial_state_def MAX_ACCRETION_PARTICLES_def)

lemma first_star_in_pool:
  "fallingStars (fst (drawBlackHole scenario_env initial_state)) ! 0
     \<in> set (fallingStars (fst (drawBlackHole scenario_env initial_state)))"
  by (rule nth_mem)
     (simp add: length_fallingStars_drawBlackHole initial_state_def MAX_FALLING_STARS_def)

theorem radial_bound_after_update_witness:
  "0 \<le> objectScale scenario_env \<and>
   0.1 * diskInnerRadius (afterDiskUpdate scenario_env initial_state)
     \<le> ap_distance (accretionDisk (afterDiskUpdate scenario_env initial_state) ! 0) \<and>
   ap_distance (accretionDisk (afterDiskUpdate scenario_env initial_state) ! 0)
     \<le> 1.1 * diskOuterRadius (afterDiskUpdate scenario_env initial_state)"
proof -
  have h: "0 \<le> objectScale scenario_env" by (simp add: scenario_env_def)
  from radial_bound_after_update[OF reachable_initial h first_particle_in_disk] h
  show ?thesis by simp
qed

theorem angle_wrapped_after_update_witness:
  "0 \<le> ap_angle (accretionDisk (afterDiskUpdate scenario_env initial_state) ! 0) \<and>
   ap_angle (accretionDisk (afterDiskUpdate scenario_env initial_state) ! 0) < 2 * pi"
  using angle_wrapped_after_update[OF reachable_initial first_particle_in_disk] .

subsection \<open>A clamped update above the ceiling\<close>

lemma limitSpeed_eval:
  assumes "fl32 (fs_vx st * fs_vx st) = a" and "fl32 (fs_vy st * fs_vy st) = b"
    and "fl32 (a + b) = S" and "400 < S" and "fl32 (400 / S) = q" and "fl32 (sqrt q) = k"
    and "fl32 (fs_vx st * k) = x" and "fl32 (fs_vy st * k) = y"
  shows "limitSpeed st = st\<lparr>fs_vx := x, fs_vy := y\<rparr>"
  using assms by (simp add: limitSpeed_def Let_def)

lemma fl32_sqrt_bracket:
  assumes "(33393123 / 33554432)\<^sup>2 < q" and "q < (33393125 / 33554432)\<^sup>2"
  shows "fl32 (sqrt q) = 8348281 / 8388608"
proof -
  have lo: "33393123 / 33554432 < sqrt q"
    using assms(1) by (rule real_less_rsqrt)
  have hi: "sqrt q < 33393125 / 33554432"
    using assms(2) by (intro real_less_lsqrt) simp_all
  have "fl32 (sqrt q) = real_of_int 16696562 / 2 ^ (1 + 23)"
  proof (rule fl32_eval_small)
    show "(0::nat) < 1" by simp
    show "(1::nat) \<le> 126" by simp
    show "1 / 2 ^ 1 \<le> \<bar>sqrt q\<bar>" using lo by simp
    show "\<bar>sqrt q\<bar> < 2 / 2 ^ 1" using lo hi by simp
    have e: "real_of_int 16696562 / 2 ^ (1 + 23) = (33393124 / 33554432 :: real)" by simp
    have w: "1 / 2 ^ (1 + 24) = (1 / 33554432 :: real)" by simp
    show "\<bar>sqrt q - real_of_int 16696562 / 2 ^ (1 + 23)\<bar> < 1 / 2 ^ (1 + 24)"
      unfolding e w using lo hi by linarith
  qed
  then show ?thesis by simp
qed

lemma fl32_sqrt_example: "fl32 (sqrt (2077037 / 2097152)) = 8348281 / 8388608"
  by (rule fl32_sqrt_bracket) (simp_all add: power2_eq_square)

lemma fl32_sqrt_example_binary32: "fl32 (sqrt (16616295 / 16777216)) = 8348281 / 8388608"
  by (rule fl32_sqrt_bracket) (simp_all add: power2_eq_square)

lemma clamp_example:
  "limitSpeed (st\<lparr>fs_vx := 49 / 135, fs_vy := 1507 / 75\<rparr>) =
     st\<lparr>fs_vx := 12120467 / 33554432, fs_vy := 5242025 / 262144\<rparr>"
proof -
  define st' where "st' = st\<lparr>fs_vx := 49 / 135, fs_vy := 1507 / 75\<rparr>"
  have vx: "fs_vx st' = 49 / 135" and vy: "fs_vy st' = 1507 / 75" by (simp_all add: st'_def)
  have a: "fl32 (fs_vx st' * fs_vx st') = 1105133 / 8388608"
    unfolding vx using fl32_eval_small[of 3 "49 / 135 * (49 / 135)" 8841064] by simp
  have b: "fl32 (fs_vy st' * fs_vy st') = 13229819 / 32768"
    unfolding vy using fl32_eval_large[of 8 "1507 / 75 * (1507 / 75)" 15 13229819] by simp
  have S: "fl32 (1105133 / 8388608 + 13229819 / 32768) = 1654267 / 4096"
    using fl32_eval_large[of 8 "1105133 / 8388608 + 13229819 / 32768" 15 13234136] by simp
  have S4: "(400::real) < 1654267 / 4096" by simp
  have q: "fl32 (400 / (1654267 / 4096)) = 2077037 / 2097152"
    using fl32_eval_small[of 1 "400 / (1654267 / 4096)" 16616296] by simp
  have x: "fl32 (fs_vx st' * (8348281 / 8388608)) = 12120467 / 33554432"
    unfolding vx using fl32_eval_small[of 2 "49 / 135 * (8348281 / 8388608)" 12120467] by simp
  have y: "fl32 (fs_vy st' * (8348281 / 8388608)) = 5242025 / 262144"
    unfolding vy using fl32_eval_large[of 4 "1507 / 75 * (8348281 / 8388608)" 19 10484050] by simp
  have "limitSpeed st' = st'\<lparr>fs_vx := 12120467 / 33554432, fs_vy := 5242025 / 262144\<rparr>"
    using a b S S4 q fl32_sqrt_example x y by (rule limitSpeed_eval)
  then show ?thesis by (simp add: st'_def)
qed

text \<open>
  The same velocity is stored when the velocity before the clamp is the binary32 pair
  \<open>(1522377 / 2\<^sup>2\<^sup>2, 5267347 / 2\<^sup>1\<^sup>8)\<close> that lines 337--356 produce in binary32 for this
  update.
\<close>

lemma clamp_example_binary32:
  "limitSpeed (st\<lparr>fs_vx := 1522377 / 4194304, fs_vy := 5267347 / 262144\<rparr>) =
     st\<lparr>fs_vx := 12120467 / 33554432, fs_vy := 5242025 / 262144\<rparr>"
proof -
  define st' where "st' = st\<lparr>fs_vx := 1522377 / 4194304, fs_vy := 5267347 / 262144\<rparr>"
  have vx: "fs_vx st' = 1522377 / 4194304" and vy: "fs_vy st' = 5267347 / 262144"
    by (simp_all add: st'_def)
  have a: "fl32 (fs_vx st' * fs_vx st') = 8841063 / 67108864"
    unfolding vx
    using fl32_eval_small[of 3 "1522377 / 4194304 * (1522377 / 4194304)" 8841063] by simp
  have b: "fl32 (fs_vy st' * fs_vy st') = 3307455 / 8192"
    unfolding vy
    using fl32_eval_large[of 8 "5267347 / 262144 * (5267347 / 262144)" 15 13229820] by simp
  have S: "fl32 (8841063 / 67108864 + 3307455 / 8192) = 13234137 / 32768"
    using fl32_eval_large[of 8 "8841063 / 67108864 + 3307455 / 8192" 15 13234137] by simp
  have S4: "(400::real) < 13234137 / 32768" by simp
  have q: "fl32 (400 / (13234137 / 32768)) = 16616295 / 16777216"
    using fl32_eval_small[of 1 "400 / (13234137 / 32768)" 16616295] by simp
  have x: "fl32 (fs_vx st' * (8348281 / 8388608)) = 12120467 / 33554432"
    unfolding vx
    using fl32_eval_small[of 2 "1522377 / 4194304 * (8348281 / 8388608)" 12120467] by simp
  have y: "fl32 (fs_vy st' * (8348281 / 8388608)) = 5242025 / 262144"
    unfolding vy
    using fl32_eval_large[of 4 "5267347 / 262144 * (8348281 / 8388608)" 19 10484050] by simp
  have "limitSpeed st' = st'\<lparr>fs_vx := 12120467 / 33554432, fs_vy := 5242025 / 262144\<rparr>"
    using a b S S4 q fl32_sqrt_example_binary32 x y by (rule limitSpeed_eval)
  then show ?thesis by (simp add: st'_def)
qed

lemma updateFallingStar_velocity:
  fixes e :: env and st :: FallingStar
  assumes "fs_active st"
  defines "dx \<equiv> real_of_int (objectX e) - fs_x st"
  defines "dy \<equiv> real_of_int (objectY e) - fs_y st"
  shows "fs_vx (fst (updateFallingStar e s dt i st)) =
           fs_vx (accelerate s dt dx dy (sqrt (dx * dx + dy * dy))
                    (st\<lparr>fs_prevX := - 1, fs_distance := sqrt (dx * dx + dy * dy)\<rparr>))"
    and "fs_vy (fst (updateFallingStar e s dt i st)) =
           fs_vy (accelerate s dt dx dy (sqrt (dx * dx + dy * dy))
                    (st\<lparr>fs_prevX := - 1, fs_distance := sqrt (dx * dx + dy * dy)\<rparr>))"
proof -
  define st2 where "st2 = accelerate s dt dx dy (sqrt (dx * dx + dy * dy))
                    (st\<lparr>fs_prevX := - 1, fs_distance := sqrt (dx * dx + dy * dy)\<rparr>)"
  show "fs_vx (fst (updateFallingStar e s dt i st)) =
           fs_vx (accelerate s dt dx dy (sqrt (dx * dx + dy * dy))
                    (st\<lparr>fs_prevX := - 1, fs_distance := sqrt (dx * dx + dy * dy)\<rparr>))"
    using assms(1) unfolding st2_def[symmetric]
    by (simp add: updateFallingStar_def Let_def terminateStar_fields
          dx_def[symmetric] dy_def[symmetric] st2_def[symmetric])
  show "fs_vy (fst (updateFallingStar e s dt i st)) =
           fs_vy (accelerate s dt dx dy (sqrt (dx * dx + dy * dy))
                    (st\<lparr>fs_prevX := - 1, fs_distance := sqrt (dx * dx + dy * dy)\<rparr>))"
    using assms(1) unfolding st2_def[symmetric]
    by (simp add: updateFallingStar_def Let_def terminateStar_fields
          dx_def[symmetric] dy_def[symmetric] st2_def[symmetric])
qed

lemma fast_star_update:
  shows "fs_vx (fst (updateFallingStar scenario_env scenario_state (1 / 10) 0 fast_star))
           = 12120467 / 33554432"
    and "fs_vy (fst (updateFallingStar scenario_env scenario_state (1 / 10) 0 fast_star))
           = 5242025 / 262144"
proof -
  have act: "fs_active fast_star" by (simp add: fast_star_def)
  have dx: "real_of_int (objectX scenario_env) - fs_x fast_star = 90"
    and dy: "real_of_int (objectY scenario_env) - fs_y fast_star = 0"
    by (simp_all add: scenario_env_def fast_star_def)
  have d: "sqrt (90 * 90 + 0 * 0) = (90::real)"
    using real_sqrt_abs2[of "90::real"] by simp
  define st1 where "st1 = fast_star\<lparr>fs_prevX := - 1, fs_distance := 90\<rparr>"
  have "accelerate scenario_state (1 / 10) 90 0 90 st1 =
          limitSpeed (st1\<lparr>fs_vx := 49 / 135, fs_vy := 1507 / 75\<rparr>)"
    by (simp add: accelerate_def Let_def scenario_state_radii st1_def fast_star_def)
  then have A: "accelerate scenario_state (1 / 10) 90 0 90 st1 =
          st1\<lparr>fs_vx := 12120467 / 33554432, fs_vy := 5242025 / 262144\<rparr>"
    by (simp only: clamp_example)
  show "fs_vx (fst (updateFallingStar scenario_env scenario_state (1 / 10) 0 fast_star))
           = 12120467 / 33554432"
    unfolding updateFallingStar_velocity(1)[OF act] dx dy d st1_def[symmetric] A by simp
  show "fs_vy (fst (updateFallingStar scenario_env scenario_state (1 / 10) 0 fast_star))
           = 5242025 / 262144"
    unfolding updateFallingStar_velocity(2)[OF act] dx dy d st1_def[symmetric] A by simp
qed

text \<open>
  Claim C8 states that the squared speed never exceeds 400, each update clamping the speed
  back to the ceiling. The clamp of lines 358--365 multiplies both components by the
  binary32 value of \<^verbatim>\<open>sqrt(maxSpeedSq / speedSq)\<close> and rounds the products, which can leave
  the squared speed above 400. For the star at \<open>(30, 120)\<close> with velocity \<open>(0, 20)\<close> and spin
  factor 1, one update of 0.1 s at scale 1 around \<open>(120, 120)\<close> raises the velocity to
  \<open>(49/135, 1507/75)\<close>; the clamp stores \<open>12120467 / 2\<^sup>2\<^sup>5 = 0.361218065\<close> and
  \<open>5242025 / 2\<^sup>1\<^sup>8 = 19.9967384\<close>, of squared length \<open>400.0000265\<close>.
\<close>

theorem falling_star_speed_ceiling_counterexample:
  "(fs_vx fast_star)\<^sup>2 + (fs_vy fast_star)\<^sup>2 = 400 \<and>
   fs_vx (fst (updateFallingStar scenario_env scenario_state (1 / 10) 0 fast_star))
     = 12120467 / 33554432 \<and>
   fs_vy (fst (updateFallingStar scenario_env scenario_state (1 / 10) 0 fast_star))
     = 5242025 / 262144 \<and>
   400 < (fs_vx (fst (updateFallingStar scenario_env scenario_state (1 / 10) 0 fast_star)))\<^sup>2 +
         (fs_vy (fst (updateFallingStar scenario_env scenario_state (1 / 10) 0 fast_star)))\<^sup>2"
  unfolding fast_star_update
  by (simp add: fast_star_def power2_eq_square)

text \<open>
  Claim C8, amended. In every reachable state the squared speed of every falling star is
  at most \<open>400 * (1 + 2\<^sup>-\<^sup>2\<^sup>0)\<close>, about 400.0004: the speed is 0 before the first spawn, at most
  0.9 at a spawn, and after an update the clamp leaves it within its rounding error of the
  ceiling.
\<close>

theorem falling_star_speed_ceiling_rounded:
  assumes "reachable s" and "st \<in> set (fallingStars s)"
  shows "(fs_vx st)\<^sup>2 + (fs_vy st)\<^sup>2 \<le> 400 * (1 + 1 / 2 ^ 20)"
proof -
  from reachable_speed[OF assms(1)] assms(2)
  have "fs_vx st * fs_vx st + fs_vy st * fs_vy st \<le> 400 * (1 + 1 / 2 ^ 20)" by blast
  then show ?thesis by (simp only: power2_eq_square)
qed

theorem falling_star_speed_ceiling_rounded_witness:
  "(fs_vx (fallingStars (fst (drawBlackHole scenario_env initial_state)) ! 0))\<^sup>2 +
   (fs_vy (fallingStars (fst (drawBlackHole scenario_env initial_state)) ! 0))\<^sup>2
     \<le> 400 * (1 + 1 / 2 ^ 20)"
  using falling_star_speed_ceiling_rounded[OF reachable_draw[OF reachable_initial] first_star_in_pool] .

text \<open>
  Claim C10. A frame that starts from a reachable state ends with every entry of
  \<^verbatim>\<open>previousLensPoints\<close> at \<open>(-1, -1)\<close>, and its movement-triggered erase writes no lens
  pixel.
\<close>

lemma no_lens_pixel:
  assumes "previousLensPoints s = replicate 60 (- 1, - 1)"
  shows "DrawPixel x y c \<notin> set (snd (eraseHorizonAndLens e s))"
  using assms by (simp add: eraseHorizonAndLens_def Let_def)

lemma frameStart_lens:
  assumes "reachable s"
  shows "previousLensPoints (frameStart e s) = replicate 60 (- 1, - 1)"
  using reachable_lens[OF assms]
  by (cases "blackHoleInitialized s")
     (simp_all add: frameStart_def initializeOnFirstRun_def computeRadii_def Let_def)

theorem lens_tracker_stays_sentinel:
  assumes "reachable s"
  shows "previousLensPoints (fst (drawBlackHole e s)) = replicate 60 (- 1, - 1) \<and>
         (\<forall>x y c. DrawPixel x y c \<notin>
            set (snd (eraseHorizonAndLens e
                       ((frameStart e s)\<lparr>blackHoleLastUpdateTime := millis_start e\<rparr>))))"
proof -
  have 1: "previousLensPoints (fst (drawBlackHole e s)) = replicate 60 (- 1, - 1)"
    using reachable_lens[OF reachable_draw[OF assms, of e]]
    by (simp add: drawBlackHole_fields)
  have "previousLensPoints ((frameStart e s)\<lparr>blackHoleLastUpdateTime := millis_start e\<rparr>) =
        replicate 60 (- 1, - 1)"
    using frameStart_lens[OF assms] by simp
  from no_lens_pixel[OF this] 1 show ?thesis by blast
qed

theorem lens_tracker_stays_sentinel_witness:
  "previousLensPoints (fst (drawBlackHole scenario_env initial_state)) = replicate 60 (- 1, - 1) \<and>
   DrawPixel 0 0 0 \<notin>
     set (snd (eraseHorizonAndLens scenario_env
                ((frameStart scenario_env initial_state)\<lparr>blackHoleLastUpdateTime := millis_start scenario_env\<rparr>)))"
  using lens_tracker_stays_sentinel[OF reachable_initial, of scenario_env] by blast

subsection \<open>The consumption flash\<close>

lemma in_concat_map: "x \<in> set xs \<Longrightarrow> c \<in> set (f x) \<Longrightarrow> c \<in> set (concat (map f xs))"
  by auto

lemma set_consumption_flash:
  "set (consumption_flash e s) =
     {DrawPixel x y TFT_WHITE | x y r j. r < 3 \<and> j < 8 \<and>
        x = round_c (real_of_int (objectX e) + cos (real j * pi / 4) * (blackHoleRadius s + real r)) \<and>
        y = round_c (real_of_int (objectY e) + sin (real j * pi / 4) * (blackHoleRadius s + real r)) \<and>
        0 \<le> x \<and> x < SCREEN_WIDTH e \<and> 0 \<le> y \<and> y < SCREEN_HEIGHT e}"
  (is "?L = ?R")
proof
  show "?L \<subseteq> ?R"
  proof
    fix c assume "c \<in> ?L"
    then obtain r j where r: "r < 3" and j: "j < 8"
        and c: "c \<in> set (let q = flash_point e s r j
                 in if on_screen e q then [DrawPixel (fst q) (snd q) TFT_WHITE] else [])"
      unfolding consumption_flash_def by auto
    from c have "on_screen e (flash_point e s r j)"
        and "c = DrawPixel (fst (flash_point e s r j)) (snd (flash_point e s r j)) TFT_WHITE"
      by (simp_all add: Let_def split: if_splits)
    then show "c \<in> ?R"
      using r j by (simp add: on_screen_def flash_point_def Let_def) blast
  qed
  show "?R \<subseteq> ?L"
  proof
    fix c assume "c \<in> ?R"
    then obtain r j where r: "r < 3" and j: "j < 8"
        and on: "on_screen e (flash_point e s r j)"
        and c: "c = DrawPixel (fst (flash_point e s r j)) (snd (flash_point e s r j)) TFT_WHITE"
      by (auto simp: on_screen_def flash_point_def Let_def)
    have "c \<in> set (let q = flash_point e s r j
                 in if on_screen e q then [DrawPixel (fst q) (snd q) TFT_WHITE] else [])"
      using on c by (simp add: Let_def)
    then show "c \<in> ?L"
      unfolding consumption_flash_def using r j
      by (intro in_concat_map[of r] in_concat_map[of j]) simp_all
  qed
qed

lemma length_concat_le:
  assumes "\<forall>x\<in>set xs. length (f x) \<le> k"
  shows "length (concat (map f xs)) \<le> k * length xs"
  using assms by (induction xs) (simp_all add: add_mono)

lemma length_concat_eq:
  assumes "\<forall>x\<in>set xs. length (f x) = k"
  shows "length (concat (map f xs)) = k * length xs"
  using assms by (induction xs) simp_all

lemma length_consumption_flash: "length (consumption_flash e s) \<le> 24"
proof -
  have inner: "length (concat (map (\<lambda>j. let q = flash_point e s r j
         in if on_screen e q then [DrawPixel (fst q) (snd q) TFT_WHITE] else []) [0..<8])) \<le> 8" for r
    using length_concat_le[of "[0..<8]" "\<lambda>j. let q = flash_point e s r j
         in if on_screen e q then [DrawPixel (fst q) (snd q) TFT_WHITE] else []" 1]
    by (simp add: Let_def)
  show ?thesis
    unfolding consumption_flash_def
    using length_concat_le[of "[0..<3]" "\<lambda>r. concat (map (\<lambda>j. let q = flash_point e s r j
         in if on_screen e q then [DrawPixel (fst q) (snd q) TFT_WHITE] else []) [0..<8])" 8] inner
    by simp
qed

lemma length_consumption_flash_all_on_screen:
  assumes "\<And>r j. r < 3 \<Longrightarrow> j < 8 \<Longrightarrow> on_screen e (flash_point e s r j)"
  shows "length (consumption_flash e s) = 24"
proof -
  have inner: "length (concat (map (\<lambda>j. let q = flash_point e s r j
         in if on_screen e q then [DrawPixel (fst q) (snd q) TFT_WHITE] else []) [0..<8])) = 8"
    if "r < 3" for r
    using length_concat_eq[of "[0..<8]" "\<lambda>j. let q = flash_point e s r j
         in if on_screen e q then [DrawPixel (fst q) (snd q) TFT_WHITE] else []" 1] assms[OF that]
    by (simp add: Let_def)
  show ?thesis
    unfolding consumption_flash_def
    using length_concat_eq[of "[0..<3]" "\<lambda>r. concat (map (\<lambda>j. let q = flash_point e s r j
         in if on_screen e q then [DrawPixel (fst q) (snd q) TFT_WHITE] else []) [0..<8])" 8] inner
    by simp
qed

lemma round_c_bounds:
  assumes "real_of_int lo \<le> v" and "v \<le> real_of_int hi"
  shows "lo \<le> round_c v \<and> round_c v \<le> hi"
proof (cases "v \<ge> 0")
  case True
  have "lo \<le> \<lfloor>v + 1 / 2\<rfloor>" using assms(1) by linarith
  moreover have "\<lfloor>v + 1 / 2\<rfloor> \<le> hi" using assms(2) by linarith
  ultimately show ?thesis using True by (simp add: round_c_def)
next
  case False
  have "lo \<le> \<lceil>v - 1 / 2\<rceil>" using assms(1) by linarith
  moreover have "\<lceil>v - 1 / 2\<rceil> \<le> hi" using assms(2) by linarith
  ultimately show ?thesis using False by (simp add: round_c_def)
qed

lemma round_c_of_int: "round_c (real_of_int n) = n"
  by (simp add: round_c_def) linarith

lemma updateFallingStar_consumed:
  assumes act: "fs_active st"
    and near: "sqrt ((real_of_int (objectX e) - fs_x st) * (real_of_int (objectX e) - fs_x st) +
                     (real_of_int (objectY e) - fs_y st) * (real_of_int (objectY e) - fs_y st))
               \<le> blackHoleRadius s"
  shows "\<not> fs_active (fst (updateFallingStar e s dt i st))"
proof -
  define dx where "dx = real_of_int (objectX e) - fs_x st"
  define dy where "dy = real_of_int (objectY e) - fs_y st"
  define d where "d = sqrt (dx * dx + dy * dy)"
  have n: "d \<le> blackHoleRadius s" using near by (simp add: d_def dx_def dy_def)
  define st2 where "st2 = accelerate s dt dx dy d (st\<lparr>fs_prevX := - 1, fs_distance := d\<rparr>)"
  define st3 where "st3 = st2\<lparr>fs_x := fs_x st2 + fs_vx st2 * dt, fs_y := fs_y st2 + fs_vy st2 * dt\<rparr>"
  have "updateFallingStar e s dt i st = terminateStar e s i d (fs_prevX st) (fs_prevY st) st3"
    using act n
    unfolding updateFallingStar_def Let_def st3_def st2_def d_def dx_def dy_def
    by simp
  then show ?thesis by (simp add: terminateStar_fields)
qed

lemma inner_star_facts:
  shows "fs_active inner_star"
    and "sqrt ((real_of_int (objectX scenario_env) - fs_x inner_star) * (real_of_int (objectX scenario_env) - fs_x inner_star) +
               (real_of_int (objectY scenario_env) - fs_y inner_star) * (real_of_int (objectY scenario_env) - fs_y inner_star)) = 10"
proof -
  show "fs_active inner_star" by (simp add: inner_star_def)
  have "sqrt (10 * 10) = \<bar>10::real\<bar>" by (rule real_sqrt_abs2)
  then have "sqrt 100 = (10::real)" by simp
  then show "sqrt ((real_of_int (objectX scenario_env) - fs_x inner_star) * (real_of_int (objectX scenario_env) - fs_x inner_star) +
               (real_of_int (objectY scenario_env) - fs_y inner_star) * (real_of_int (objectY scenario_env) - fs_y inner_star)) = 10"
    by (simp add: inner_star_def scenario_env_def)
qed

lemma inner_star_consumed:
  "\<not> fs_active (fst (updateFallingStar scenario_env scenario_state dt i inner_star))"
proof (rule updateFallingStar_consumed)
  show "fs_active inner_star" by (rule inner_star_facts)
  show "sqrt ((real_of_int (objectX scenario_env) - fs_x inner_star) * (real_of_int (objectX scenario_env) - fs_x inner_star) +
               (real_of_int (objectY scenario_env) - fs_y inner_star) * (real_of_int (objectY scenario_env) - fs_y inner_star))
        \<le> blackHoleRadius scenario_state"
    unfolding inner_star_facts(2) scenario_state_radii by simp
qed

text \<open>
  Claim C5. When the update of an active falling star makes it inactive, \<open>hasTrail\<close> is set
  exactly when the distance to the focal centre computed in that step (from the position
  before the step's integration, and stored in the star's \<open>distance\<close>) is at most 1.5 times
  the event-horizon radius; when it is not set, the step writes no flash pixel.
\<close>

theorem consumption_trail_condition:
  assumes "fs_active st" and "\<not> fs_active (fst (updateFallingStar e s dt i st))"
  shows "(fs_hasTrail (fst (updateFallingStar e s dt i st)) \<longleftrightarrow>
            fs_distance (fst (updateFallingStar e s dt i st)) \<le> 1.5 * blackHoleRadius s) \<and>
         (\<not> fs_hasTrail (fst (updateFallingStar e s dt i st)) \<longrightarrow>
            snd (updateFallingStar e s dt i st) = []) \<and>
         fs_distance (fst (updateFallingStar e s dt i st)) =
           sqrt ((real_of_int (objectX e) - fs_x st)\<^sup>2 + (real_of_int (objectY e) - fs_y st)\<^sup>2)"
  using updateFallingStar_terminated[OF assms]
  by (simp add: power2_eq_square mult.commute)

theorem consumption_trail_condition_witness:
  "fs_active inner_star \<and>
   \<not> fs_active (fst (updateFallingStar scenario_env scenario_state 0.016 0 inner_star)) \<and>
   fs_hasTrail (fst (updateFallingStar scenario_env scenario_state 0.016 0 inner_star)) \<and>
   fs_distance (fst (updateFallingStar scenario_env scenario_state 0.016 0 inner_star)) = 10"
proof -
  have d: "sqrt ((real_of_int (objectX scenario_env) - fs_x inner_star)\<^sup>2 +
                 (real_of_int (objectY scenario_env) - fs_y inner_star)\<^sup>2) = 10"
    using inner_star_facts(2) by (simp add: power2_eq_square)
  from consumption_trail_condition[OF inner_star_facts(1) inner_star_consumed, of "0.016" 0]
  show ?thesis
    unfolding d using inner_star_facts(1) inner_star_consumed[of "0.016" 0]
    by (simp add: scenario_state_radii)
qed

text \<open>
  Claim C4 says that the flash consists of 8 points on the horizon circle. The source runs
  the 8 angles for each of the radii \<open>blackHoleRadius + r\<close>, \<open>r = 0, 1, 2\<close>: in the scenario
  the star consumed at distance 10 produces 24 pixel writes, among them \<open>(136, 120)\<close> at
  distance 16 from the centre.
\<close>

lemma scenario_flash_on_screen:
  assumes "r < 3"
  shows "on_screen scenario_env (flash_point scenario_env scenario_state r j)"
proof -
  define a where "a = real j * pi / 4"
  define R where "R = 14 + real r"
  have R: "0 \<le> R" "R \<le> 16" using assms by (simp_all add: R_def)
  have c: "\<bar>cos a * R\<bar> \<le> 16" and s: "\<bar>sin a * R\<bar> \<le> 16"
  proof -
    have "\<bar>cos a * R\<bar> = \<bar>cos a\<bar> * R" using R by (simp add: abs_mult)
    also have "\<dots> \<le> 1 * 16" by (intro mult_mono) (use R in simp_all)
    finally show "\<bar>cos a * R\<bar> \<le> 16" by simp
    have "\<bar>sin a * R\<bar> = \<bar>sin a\<bar> * R" using R by (simp add: abs_mult)
    also have "\<dots> \<le> 1 * 16" by (intro mult_mono) (use R in simp_all)
    finally show "\<bar>sin a * R\<bar> \<le> 16" by simp
  qed
  have x: "104 \<le> round_c (120 + cos a * R) \<and> round_c (120 + cos a * R) \<le> 136"
    by (rule round_c_bounds) (use c in \<open>simp_all add: abs_le_iff\<close>)
  have y: "104 \<le> round_c (120 + sin a * R) \<and> round_c (120 + sin a * R) \<le> 136"
    by (rule round_c_bounds) (use s in \<open>simp_all add: abs_le_iff\<close>)
  show ?thesis
    using x y
    by (simp add: on_screen_def flash_point_def Let_def scenario_state_radii scenario_env_def
          a_def[symmetric] R_def[symmetric])
qed

lemma scenario_flash_point_2_0: "flash_point scenario_env scenario_state 2 0 = (136, 120)"
proof -
  have "round_c 136 = 136" "round_c 120 = 120"
    using round_c_of_int[of 136] round_c_of_int[of 120] by simp_all
  then show ?thesis
    by (simp add: flash_point_def Let_def scenario_state_radii scenario_env_def)
qed

lemma inner_star_flash:
  "snd (updateFallingStar scenario_env scenario_state dt i inner_star) =
     consumption_flash scenario_env scenario_state"
  using updateFallingStar_terminated(3)[OF inner_star_facts(1) inner_star_consumed, of dt i]
  unfolding inner_star_facts(2) by (simp add: scenario_state_radii)

theorem flash_eight_points_counterexample:
  "length (snd (updateFallingStar scenario_env scenario_state 0.016 0 inner_star)) = 24 \<and>
   DrawPixel 136 120 TFT_WHITE \<in> set (snd (updateFallingStar scenario_env scenario_state 0.016 0 inner_star))"
proof -
  have 1: "length (consumption_flash scenario_env scenario_state) = 24"
    by (rule length_consumption_flash_all_on_screen) (rule scenario_flash_on_screen)
  have "on_screen scenario_env (flash_point scenario_env scenario_state 2 0)"
    by (rule scenario_flash_on_screen) simp
  then have "DrawPixel 136 120 TFT_WHITE \<in>
      set (let q = flash_point scenario_env scenario_state 2 0
           in if on_screen scenario_env q then [DrawPixel (fst q) (snd q) TFT_WHITE] else [])"
    by (simp add: Let_def scenario_flash_point_2_0)
  then have 2: "DrawPixel 136 120 TFT_WHITE \<in> set (consumption_flash scenario_env scenario_state)"
    unfolding consumption_flash_def
    by (intro in_concat_map[of 2] in_concat_map[of 0]) simp_all
  show ?thesis unfolding inner_star_flash using 1 2 by simp
qed

text \<open>
  Claim C4, amended. When a falling star is consumed within 1.5 times the event-horizon
  radius, the flash writes, for each of the three radii \<open>blackHoleRadius + r\<close> (\<open>r = 0, 1, 2\<close>)
  and each of the eight angles \<open>j * pi / 4\<close> (\<open>j = 0, ..., 7\<close>), the rounded point of that
  radius and angle, in the colour \<open>TFT_WHITE\<close>, exactly when the point is on the screen: at
  most 24 pixel writes, and nothing else.
\<close>

theorem consumption_flash_three_rings:
  assumes "fs_active st" and "\<not> fs_active (fst (updateFallingStar e s dt i st))"
    and "fs_distance (fst (updateFallingStar e s dt i st)) \<le> 1.5 * blackHoleRadius s"
  shows "set (snd (updateFallingStar e s dt i st)) =
           {DrawPixel x y TFT_WHITE | x y r j. r < 3 \<and> j < 8 \<and>
              x = round_c (real_of_int (objectX e) + cos (real j * pi / 4) * (blackHoleRadius s + real r)) \<and>
              y = round_c (real_of_int (objectY e) + sin (real j * pi / 4) * (blackHoleRadius s + real r)) \<and>
              0 \<le> x \<and> x < SCREEN_WIDTH e \<and> 0 \<le> y \<and> y < SCREEN_HEIGHT e} \<and>
         length (snd (updateFallingStar e s dt i st)) \<le> 24"
proof -
  have "snd (updateFallingStar e s dt i st) = consumption_flash e s"
    using updateFallingStar_terminated[OF assms(1,2)] assms(3) by simp
  then show ?thesis
    using set_consumption_flash[of e s] length_consumption_flash[of e s] by simp
qed

theorem consumption_flash_three_rings_witness:
  "fs_active inner_star \<and>
   fs_distance (fst (updateFallingStar scenario_env scenario_state 0.016 0 inner_star))
     \<le> 1.5 * blackHoleRadius scenario_state \<and>
   length (snd (updateFallingStar scenario_env scenario_state 0.016 0 inner_star)) \<le> 24"
proof -
  have d: "fs_distance (fst (updateFallingStar scenario_env scenario_state 0.016 0 inner_star)) = 10"
    using updateFallingStar_terminated(1)[OF inner_star_facts(1) inner_star_consumed, of "0.016" 0]
    unfolding inner_star_facts(2) .
  have h: "fs_distance (fst (updateFallingStar scenario_env scenario_state 0.016 0 inner_star))
     \<le> 1.5 * blackHoleRadius scenario_state"
    unfolding d by (simp add: scenario_state_radii)
  from consumption_flash_three_rings[OF inner_star_facts(1) inner_star_consumed h] h inner_star_facts(1)
  show ?thesis by blast
qed

subsection \<open>Teardown\<close>

lemma drawBlackHole_prevInnerParticleY:
  "prevInnerParticleY (fst (drawBlackHole e s)) =
     map (\<lambda>i. snd (innerParticle e (spawnFallingStars e (fst (afterStarUpdate e s))) i)) [0..<4]"
  by (simp add: drawBlackHole_def Let_def drawSection_fields)

lemma innerParticle_radius:
  "blackHoleRadius s = blackHoleRadius s' \<Longrightarrow> innerParticle e s i = innerParticle e s' i"
  by (simp add: innerParticle_def)

lemma scenario_innerParticle_0: "innerParticle scenario_env scenario_state 0 = (122, 120)"
proof -
  have f: "fmod 0 (2 * pi) = 0" by (simp add: fmod_def to_int_def)
  have x: "round_c (120 + 14 * 0.15) = 122" by (simp add: round_c_def)
  have y: "round_c 120 = 120" using round_c_of_int[of 120] by simp
  show ?thesis
    using x y
    by (simp add: innerParticle_def Let_def scenario_state_radii scenario_env_def f on_screen_def)
qed

text \<open>
  Claim C9 says that after teardown every tracked erase array holds sentinel values. The
  source resets only \<^verbatim>\<open>previousLensPoints[i][0]\<close>, \<^verbatim>\<open>trailLen[i]\<close> and
  \<^verbatim>\<open>prevInnerParticleX[i]\<close>: after the first frame of the scenario and a teardown,
  \<^verbatim>\<open>prevInnerParticleY[0]\<close> still holds the coordinate 120.
\<close>

theorem teardown_sentinel_counterexample:
  "reachable (fst (drawBlackHole scenario_env initial_state)) \<and>
   prevInnerParticleY
     (fst (eraseBlackHole scenario_env (fst (drawBlackHole scenario_env initial_state)))) ! 0 = 120"
proof -
  have r: "blackHoleRadius (spawnFallingStars scenario_env (fst (afterStarUpdate scenario_env initial_state)))
         = blackHoleRadius scenario_state"
    by (simp add: spawnFallingStars_keeps afterStarUpdate_fields scenario_state_radii scenario_env_def)
  have "prevInnerParticleY (fst (drawBlackHole scenario_env initial_state)) ! 0 = 120"
    unfolding drawBlackHole_prevInnerParticleY
    by (simp add: innerParticle_radius[OF r] scenario_innerParticle_0)
  moreover have "prevInnerParticleY (fst (eraseBlackHole e s)) = prevInnerParticleY s" for e s
    by (simp add: eraseBlackHole_def Let_def)
  ultimately show ?thesis
    using reachable_draw[OF reachable_initial, of scenario_env] by simp
qed

text \<open>
  Claim C9, amended. Calling \<^verbatim>\<open>eraseBlackHole\<close> twice in a row, from any state, returns
  both times. After the first call the module is uninitialised; if it was initialised
  before, every \<^verbatim>\<open>previousLensPoints[i][0]\<close> and every \<^verbatim>\<open>prevInnerParticleX[i]\<close> is -1 and
  every \<^verbatim>\<open>trailLen[i]\<close> is 0 (the entries the erase pass tests), while the second lens
  coordinates, \<^verbatim>\<open>prevInnerParticleY\<close>, \<^verbatim>\<open>prevTrailX\<close>, \<^verbatim>\<open>prevTrailY\<close> and the particles keep
  their values. The second call changes no global and issues no display call.
\<close>

theorem teardown_twice:
  shows "\<not> blackHoleInitialized (fst (eraseBlackHole e s)) \<and>
         (blackHoleInitialized s \<longrightarrow>
            (\<forall>q\<in>set (previousLensPoints (fst (eraseBlackHole e s))). fst q = - 1) \<and>
            (\<forall>n\<in>set (trailLen (fst (eraseBlackHole e s))). n = 0) \<and>
            (\<forall>v\<in>set (prevInnerParticleX (fst (eraseBlackHole e s))). v = - 1)) \<and>
         map snd (previousLensPoints (fst (eraseBlackHole e s))) = map snd (previousLensPoints s) \<and>
         prevInnerParticleY (fst (eraseBlackHole e s)) = prevInnerParticleY s \<and>
         prevTrailX (fst (eraseBlackHole e s)) = prevTrailX s \<and>
         prevTrailY (fst (eraseBlackHole e s)) = prevTrailY s \<and>
         accretionDisk (fst (eraseBlackHole e s)) = accretionDisk s \<and>
         eraseBlackHole e' (fst (eraseBlackHole e s)) = (fst (eraseBlackHole e s), [])"
  by (simp add: eraseBlackHole_def Let_def comp_def)

theorem teardown_twice_witness:
  "blackHoleInitialized (fst (drawBlackHole scenario_env initial_state)) \<and>
   \<not> blackHoleInitialized (fst (eraseBlackHole scenario_env (fst (drawBlackHole scenario_env initial_state)))) \<and>
   eraseBlackHole scenario_env (fst (eraseBlackHole scenario_env (fst (drawBlackHole scenario_env initial_state)))) =
     (fst (eraseBlackHole scenario_env (fst (drawBlackHole scenario_env initial_state))), [])"
  using teardown_twice[of scenario_env "fst (drawBlackHole scenario_env initial_state)" scenario_env]
  by (simp add: drawBlackHole_fields)

subsection \<open>The erase pass near the screen border\<close>

lemma fmod_small:
  assumes "0 \<le> v" "v < w"
  shows "fmod v w = v"
proof -
  have "0 \<le> v / w" "v / w < 1" using assms by simp_all
  then have "\<lfloor>v / w\<rfloor> = 0" by linarith
  then show ?thesis using \<open>0 \<le> v / w\<close> by (simp add: fmod_def to_int_def)
qed

lemma update_active_position:
  assumes "ap_active p"
  shows "ap_prevX (updateAccretionParticle e s dt i p) =
           round_c (real_of_int (objectX e) +
                    cos (ap_angle (updateAccretionParticle e s dt i p)) *
                    ap_distance (updateAccretionParticle e s dt i p))"
  using assms by (simp add: updateAccretionParticle_def calculateTrailColors_def Let_def)

lemma update_active_angle_eq:
  assumes "ap_active p"
  shows "ap_angle (updateAccretionParticle e s dt i p) =
     (let a2 = fmod (ap_angle p + ap_speed p *
                  sqrt (max 1 (blackHoleRadius s * 1.2) /
                        max (ap_distance p) (max 1 (blackHoleRadius s * 1.2) * 0.5)) * dt * 60) (2 * pi)
      in if a2 < 0 then a2 + 2 * pi else a2)"
  using assms by (simp add: updateAccretionParticle_def calculateTrailColors_def Let_def)

lemma init_speed:
  "ap_speed (initializeAccretionParticle e s ra rd p) =
     0.04 * sqrt (max 1 (blackHoleRadius s * 1.2) / ap_distance (initializeAccretionParticle e s ra rd p))"
  by (simp add: initializeAccretionParticle_def calculateTrailColors_def Let_def)

lemma drawFrontParticle_prev:
  shows "ap_prevX (drawFrontParticle e s p) = ap_prevX p"
    and "ap_prevY (drawFrontParticle e s p) = ap_prevY p"
  by (simp_all add: drawFrontParticle_def Let_def)

lemma map_enumerate_nth_0:
  "xs \<noteq> [] \<Longrightarrow> map (\<lambda>(i, p). f i p) (enumerate 0 xs) ! 0 = f 0 (xs ! 0)"
  by (cases xs) simp_all

text \<open>The first particle of the first frame at the border.\<close>

lemma edge_frameStart:
  shows "blackHoleRadius (frameStart edge_env initial_state) = 14"
    and "diskOuterRadius (frameStart edge_env initial_state) = 28"
    and "accretionDisk (frameStart edge_env initial_state) ! 0 =
           initializeAccretionParticle edge_env (computeRadii edge_env initial_state) 0 0 zeroParticle"
proof -
  show "blackHoleRadius (frameStart edge_env initial_state) = 14"
    and "diskOuterRadius (frameStart edge_env initial_state) = 28"
    by (simp_all add: frameStart_fields edge_env_def scenario_env_def)
  have "accretionDisk initial_state \<noteq> []" "accretionDisk initial_state ! 0 = zeroParticle"
    by (simp_all add: initial_state_def MAX_ACCRETION_PARTICLES_def)
  then show "accretionDisk (frameStart edge_env initial_state) ! 0 =
           initializeAccretionParticle edge_env (computeRadii edge_env initial_state) 0 0 zeroParticle"
    using map_enumerate_nth_0[of "accretionDisk initial_state"
        "\<lambda>i p. initializeAccretionParticle edge_env (computeRadii edge_env initial_state)
                 (rnd_init_angle edge_env i) (rnd_init_dist edge_env i) p"]
    by (simp add: frameStart_def initializeOnFirstRun_def computeRadii_def Let_def
          initial_state_def edge_env_def scenario_env_def)
qed

lemma edge_first_particle:
  defines "p0 \<equiv> initializeAccretionParticle edge_env (computeRadii edge_env initial_state) 0 0 zeroParticle"
  shows "ap_active p0" and "ap_angle p0 = 0" and "ap_distance p0 = 16.8" and "ap_speed p0 = 0.04"
proof -
  have r: "blackHoleRadius (computeRadii edge_env initial_state) = 14"
    by (simp add: computeRadii_def Let_def edge_env_def scenario_env_def)
  show "ap_active p0" by (simp add: p0_def init_active)
  show "ap_angle p0 = 0" by (simp add: p0_def init_angle random_range_0)
  show d: "ap_distance p0 = 16.8" by (simp add: p0_def init_distance r random_range_0)
  show "ap_speed p0 = 0.04"
    using d unfolding p0_def init_speed r by simp
qed

lemma edge_frameDelta: "frameDelta edge_env initial_state = 0.016"
  by (simp add: frameDelta_def frameStart_def initializeOnFirstRun_def computeRadii_def Let_def
        deltaTime_def initial_state_def edge_env_def scenario_env_def)

lemma edge_updated_particle:
  defines "p0 \<equiv> initializeAccretionParticle edge_env (computeRadii edge_env initial_state) 0 0 zeroParticle"
  defines "pu \<equiv> updateAccretionParticle edge_env (fst (afterErase edge_env initial_state)) 0.016 0
                    (clearParticleTrail p0)"
  shows "243 \<le> ap_prevX pu"
proof -
  have fields: "ap_active (clearParticleTrail p0)" "ap_angle (clearParticleTrail p0) = 0"
      "ap_distance (clearParticleTrail p0) = 16.8" "ap_speed (clearParticleTrail p0) = 0.04"
    using edge_first_particle by (simp_all add: p0_def clearParticleTrail_def)
  have r: "blackHoleRadius (fst (afterErase edge_env initial_state)) = 14"
      "diskOuterRadius (fst (afterErase edge_env initial_state)) = 28"
    by (simp_all add: afterErase_fields edge_env_def scenario_env_def)
  have d: "ap_distance pu = 16.8"
    unfolding pu_def update_active_distance[OF fields(1)] fields r by simp
  have small: "fmod (24 / 625) (2 * pi) = 24 / 625"
    by (rule fmod_small) (use pi_ge_two in simp_all)
  have a: "ap_angle pu = 24 / 625"
    unfolding pu_def update_active_angle_eq[OF fields(1)] fields r
    by (simp add: small Let_def)
  have "cos (pi / 3) \<le> cos (24 / 625 :: real)"
    by (rule cos_monotone_0_pi_le) (use pi_ge_two in simp_all)
  then have c: "1 / 2 \<le> cos (24 / 625 :: real)" by (simp add: cos_60)
  have x: "ap_prevX pu = round_c (235 + cos (24 / 625) * 16.8)"
    unfolding pu_def update_active_position[OF fields(1)]
    unfolding pu_def[symmetric] a d by (simp add: edge_env_def scenario_env_def)
  have c1: "cos (24 / 625 :: real) \<le> 1" by (rule cos_le_one)
  have lo: "real_of_int 243 \<le> 235 + cos (24 / 625) * 16.8"
    using c by linarith
  have hi: "235 + cos (24 / 625) * 16.8 \<le> real_of_int 252"
    using c1 by linarith
  from round_c_bounds[OF lo hi] show ?thesis unfolding x by simp
qed

lemma edge_first_frame_particle:
  "243 \<le> ap_prevX (accretionDisk (fst (drawBlackHole edge_env initial_state)) ! 0)"
proof -
  have "length (accretionDisk (frameStart edge_env initial_state)) = length (accretionDisk initial_state)"
    by (simp add: frameStart_def initializeOnFirstRun_def computeRadii_def Let_def)
  then have "length (accretionDisk (frameStart edge_env initial_state)) = 450"
    by (simp add: initial_state_def MAX_ACCRETION_PARTICLES_def)
  then have len: "accretionDisk (frameStart edge_env initial_state) \<noteq> []"
    by auto
  have 1: "accretionDisk (fst (afterErase edge_env initial_state)) ! 0 =
        clearParticleTrail (initializeAccretionParticle edge_env (computeRadii edge_env initial_state) 0 0 zeroParticle)"
    using len by (simp add: afterErase_fields edge_frameStart(3))
  have len2: "accretionDisk (fst (afterErase edge_env initial_state)) \<noteq> []"
    using len by (simp add: afterErase_fields)
  have 2: "accretionDisk (afterDiskUpdate edge_env initial_state) ! 0 =
        updateAccretionParticle edge_env (fst (afterErase edge_env initial_state)) 0.016 0
          (clearParticleTrail (initializeAccretionParticle edge_env (computeRadii edge_env initial_state) 0 0 zeroParticle))"
    unfolding afterDiskUpdate_fields map_enumerate_nth_0[OF len2] edge_frameDelta 1 ..
  have "0 < length (accretionDisk (afterDiskUpdate edge_env initial_state))"
    by (simp add: length_accretionDisk_afterDiskUpdate initial_state_def MAX_ACCRETION_PARTICLES_def)
  then show ?thesis
    using edge_updated_particle
    by (simp add: drawBlackHole_fields drawFrontParticle_prev 2)
qed

lemma snd_eraseSection_particle:
  assumes "p \<in> set (accretionDisk s)" and "0 \<le> ap_prevX p"
  shows "DrawPixel (ap_prevX p) (ap_prevY p) (BG_COLOR e) \<in> set (snd (eraseSection e s))"
proof -
  have "DrawPixel (ap_prevX p) (ap_prevY p) (BG_COLOR e) \<in> set (eraseParticleCalls e p)"
    using assms(2) by (simp add: eraseParticleCalls_def)
  then have "DrawPixel (ap_prevX p) (ap_prevY p) (BG_COLOR e) \<in>
      set (concat (map (eraseParticleCalls e) (accretionDisk s)))"
    using assms(1) by (rule in_concat_map[rotated])
  moreover have "accretionDisk (fst (eraseHorizonAndLens e s)) = accretionDisk s"
    by (simp add: eraseHorizonAndLens_def Let_def)
  ultimately have "DrawPixel (ap_prevX p) (ap_prevY p) (BG_COLOR e) \<in>
      set (snd (eraseAccretionDisk e (fst (eraseHorizonAndLens e s))))"
    by (simp add: eraseAccretionDisk_def)
  then show ?thesis
    by (simp add: eraseSection_def split: prod.splits) (metis snd_conv fst_conv)
qed

text \<open>
  Claim C3. The particle erase of lines 168--171 tests only \<^verbatim>\<open>prevX >= 0\<close>, and the update
  stores the rounded position without a bounds check (line 304). With the focal object five
  pixels from the right border of a 240-pixel-wide screen, the second frame erases a pixel
  whose x coordinate is at or beyond the screen width.
\<close>

theorem erase_pixel_beyond_screen:
  "\<exists>x y. SCREEN_WIDTH edge_env \<le> x \<and>
     DrawPixel x y (BG_COLOR edge_env) \<in>
       set (snd (drawBlackHole edge_env (fst (drawBlackHole edge_env initial_state))))"
proof -
  let ?s1 = "fst (drawBlackHole edge_env initial_state)"
  let ?p = "accretionDisk ?s1 ! 0"
  have x: "243 \<le> ap_prevX ?p" by (rule edge_first_frame_particle)
  have "length (accretionDisk ?s1) = length (accretionDisk initial_state)"
    by (simp add: drawBlackHole_fields length_accretionDisk_afterDiskUpdate)
  then have mem: "?p \<in> set (accretionDisk ?s1)"
    by (intro nth_mem) (simp add: initial_state_def MAX_ACCRETION_PARTICLES_def)
  have i: "blackHoleInitialized ?s1" by (simp add: drawBlackHole_fields)
  have "accretionDisk ((frameStart edge_env ?s1)\<lparr>blackHoleLastUpdateTime := millis_start edge_env\<rparr>)
        = accretionDisk ?s1"
    using i by (simp add: frameStart_def initializeOnFirstRun_def computeRadii_def Let_def)
  with mem have "?p \<in> set (accretionDisk ((frameStart edge_env ?s1)\<lparr>blackHoleLastUpdateTime := millis_start edge_env\<rparr>))"
    by simp
  from snd_eraseSection_particle[OF this, of edge_env] x
  have "DrawPixel (ap_prevX ?p) (ap_prevY ?p) (BG_COLOR edge_env) \<in> set (snd (afterErase edge_env ?s1))"
    by (simp add: afterErase_def)
  then have "DrawPixel (ap_prevX ?p) (ap_prevY ?p) (BG_COLOR edge_env) \<in>
      set (snd (drawBlackHole edge_env ?s1))"
    by (simp add: drawBlackHole_def Let_def)
  moreover have "SCREEN_WIDTH edge_env \<le> ap_prevX ?p"
    using x by (simp add: edge_env_def scenario_env_def)
  ultimately show ?thesis by blast
qed

subsection \<open>The re-initialising branch of the disk update\<close>

text \<open>
  The branch of lines 221--236 hands an inactive particle to the initialiser and skips the
  clamp of lines 258--259. Taken on its own it can leave a distance above
  \<open>1.1 * diskOuterRadius\<close>: at scale 1 the raw draw 999 gives about 34.96 against the bound
  30.8. No reachable state has an inactive particle when the update runs
  (\<open>reachable_all_active\<close>), so the branch does not occur in a run of the module.
\<close>

lemma reinitialised_distance_unclamped:
  "ap_distance (updateAccretionParticle (scenario_env\<lparr>rnd_reinit_dist := (\<lambda>i. 999)\<rparr>)
                  scenario_state dt i zeroParticle)
     > 1.1 * diskOuterRadius scenario_state"
proof -
  let ?e = "scenario_env\<lparr>rnd_reinit_dist := (\<lambda>i. 999)\<rparr>"
  have "updateAccretionParticle ?e scenario_state dt i zeroParticle =
        initializeAccretionParticle ?e scenario_state (rnd_reinit_angle ?e i) 999
          (zeroParticle\<lparr>ap_prevX := - 1\<rparr>)"
    by (simp add: updateAccretionParticle_def Let_def zeroParticle_def)
  then show ?thesis
    by (simp add: init_distance scenario_state_radii random_range_def random_upto_def
          power2_eq_square)
qed

end
